theory Spec2Isabelle
  imports Main "HOL-Library.Word"
begin

section \<open>The united queue engine (queue/uQueue.go)\<close>

text \<open>
  A shallow embedding of the engine of \<^verbatim>\<open>queue/uQueue.go\<close>: the registry of topics,
  topic and line creation, the dispatch of push, pop and confirm to a topic, the
  export of the engine record and the recovery of the registry from storage.

  Every Go method that mutates the receiver takes the engine and returns it updated.
  A Go \<^verbatim>\<open>error\<close> is modelled by its message; \<^verbatim>\<open>nil\<close> is \<open>None\<close>.
  Each call is modelled as it runs alone: the mutex of the engine and the background
  loops of the topics are not part of the model, and logging is left out.
\<close>

subsection \<open>Constants\<close>

type_synonym error = string
type_synonym bytes = "8 word list"

definition StorageKeyWord :: string where
  "StorageKeyWord = ''UnitedQueueKey''"

definition ErrTopicNotExisted :: error where
  "ErrTopicNotExisted = ''Topic Not Existed''"

definition ErrLineNotExisted :: error where
  "ErrLineNotExisted = ''Line Not Existed''"

definition ErrTopicExisted :: error where
  "ErrTopicExisted = ''Topic Has Existed''"

definition ErrLineExisted :: error where
  "ErrLineExisted = ''Line Has Existed''"

definition ErrNotDelivered :: error where
  "ErrNotDelivered = ''Message Not Delivered''"

definition ErrKey :: error where
  "ErrKey = ''Key Illegal''"

definition ErrNone :: error where
  "ErrNone = ''No Message''"

subsection \<open>Data\<close>

text \<open>
  A Go channel that is only ever closed: \<^verbatim>\<open>make(chan bool)\<close> gives \<open>Open\<close>,
  \<^verbatim>\<open>close\<close> gives \<open>Closed\<close>, and closing a closed channel panics.
\<close>

datatype chan = Open | Closed

text \<open>
  Modelled from the spec: the struct \<^verbatim>\<open>topic\<close> is declared next to its methods, in
  another file of the package. Its fields here are the ones \<^verbatim>\<open>newTopic\<close> and
  \<^verbatim>\<open>loadTopic\<close> assign; head and tail are offsets, \<^verbatim>\<open>uint64\<close> in the topic
  record of the spec. The back pointer \<^verbatim>\<open>q\<close> to the engine is left out: the methods
  of a topic reach the storage through it, and the model hands them the storage
  instead. The field \<open>running\<close> records that \<^verbatim>\<open>start\<close> has launched the
  background loop of the topic. The type \<open>'l\<close> is the struct \<^verbatim>\<open>line\<close>, which
  the engine never looks into.
\<close>

record 'l topic =
  name :: string
  lines :: "string \<rightharpoonup> 'l"
  head :: "64 word"
  tail :: "64 word"
  quit :: chan
  running :: bool

text \<open>The engine. \<open>'st\<close> is the state of the storage adapter behind the
  interface \<^verbatim>\<open>store.Storage\<close>.\<close>

record ('st, 'l) UnitedQueue =
  topics :: "string \<rightharpoonup> 'l topic"
  storage :: 'st

record unitedQueueStore =
  Topics :: "string list"

text \<open>The engine record, as declared in \<^verbatim>\<open>uQueue.go\<close>, is above. Modelled from the
  spec: the topic record \<^verbatim>\<open>topicStore\<close>, declared with the topic, holds
  \<^verbatim>\<open>{head: uint64, tail: uint64, lines: list of strings}\<close>; \<^verbatim>\<open>loadTopic\<close> reads
  these three fields. The line record \<^verbatim>\<open>lineStore\<close> is only passed on, and is the
  type \<open>'ls\<close> below.\<close>

record topicStore =
  Head :: "64 word"
  Tail :: "64 word"
  Lines :: "string list"

text \<open>Modelled from the spec: the requests, declared with the front end. Create reads
  \<^verbatim>\<open>TopicName\<close>, \<^verbatim>\<open>LineName\<close> and \<^verbatim>\<open>Recycle\<close> (a \<^verbatim>\<open>time.Duration\<close>, a
  64-bit integer), Confirm reads \<^verbatim>\<open>TopicName\<close>, \<^verbatim>\<open>LineName\<close> and \<^verbatim>\<open>ID\<close> (an
  offset). The two names are fields of a common parent record, so that both
  requests can have them.\<close>

record Request =
  TopicName :: string
  LineName :: string

record CreateRequest = Request +
  Recycle :: "64 word"

record ConfirmRequest = Request +
  ID :: "64 word"

subsection \<open>The collaborators\<close>

text \<open>
  What the engine calls and \<^verbatim>\<open>uQueue.go\<close> does not define is a parameter of the
  model, so that every theorem holds for every storage adapter, every codec and
  every implementation of the topic:
  \<^item> the storage adapter (\<^verbatim>\<open>Get\<close>, \<^verbatim>\<open>Set\<close>, \<^verbatim>\<open>Close\<close>), over its own state;
    \<^verbatim>\<open>Get\<close> reads, \<^verbatim>\<open>Set\<close> may fail and may change the state even then;
  \<^item> the gob encoder and decoders at the three record types;
  \<^item> the methods of \<^verbatim>\<open>topic\<close>. A method that mutates the topic returns it
    updated, with the storage; \<^verbatim>\<open>exportLines\<close> and \<^verbatim>\<open>exportTopic\<close> read the
    topic and write to the storage; \<^verbatim>\<open>loadLine\<close> makes a line of a line record.
\<close>

record ('st, 'l, 'ls) env =
  storage_Get :: "'st \<Rightarrow> string \<Rightarrow> error + bytes"
  storage_Set :: "'st \<Rightarrow> string \<Rightarrow> bytes \<Rightarrow> error option \<times> 'st"
  storage_Close :: "'st \<Rightarrow> 'st"
  gob_Encode_queue :: "unitedQueueStore \<Rightarrow> error + bytes"
  gob_Decode_queue :: "bytes \<Rightarrow> error + unitedQueueStore"
  gob_Decode_topic :: "bytes \<Rightarrow> error + topicStore"
  gob_Decode_line :: "bytes \<Rightarrow> error + 'ls"
  topic_loadLine :: "'l topic \<Rightarrow> string \<Rightarrow> 'ls \<Rightarrow> error + 'l"
  topic_CreateLine :: "'st \<Rightarrow> 'l topic \<Rightarrow> string \<Rightarrow> 64 word \<Rightarrow> error option \<times> 'l topic \<times> 'st"
  topic_Push :: "'st \<Rightarrow> 'l topic \<Rightarrow> bytes \<Rightarrow> error option \<times> 'l topic \<times> 'st"
  topic_pop :: "'st \<Rightarrow> 'l topic \<Rightarrow> string \<Rightarrow> (error + 64 word \<times> bytes) \<times> 'l topic \<times> 'st"
  topic_confirm :: "'st \<Rightarrow> 'l topic \<Rightarrow> string \<Rightarrow> 64 word \<Rightarrow> error option \<times> 'l topic \<times> 'st"
  topic_exportLines :: "'st \<Rightarrow> 'l topic \<Rightarrow> error option \<times> 'st"
  topic_exportTopic :: "'st \<Rightarrow> 'l topic \<Rightarrow> error option \<times> 'st"

text \<open>
  Modelled from the spec: \<^verbatim>\<open>start\<close> is defined next to the struct; it launches the
  background loop of the topic and changes no field. The model records the launch.
\<close>

definition start :: "'l topic \<Rightarrow> 'l topic" where
  "start t = t\<lparr>running := True\<rparr>"

subsection \<open>Ranging over a Go map\<close>

text \<open>
  \<^verbatim>\<open>for k, v := range m\<close> visits every entry of \<open>m\<close> once, in an order the language
  leaves open and that may differ from one loop to the next. The order is an
  argument \<open>ks\<close> of every function that ranges over the topics; \<open>range_order m ks\<close>
  says that \<open>ks\<close> is an order Go may choose.
\<close>

definition range_map :: "('k \<rightharpoonup> 'v) \<Rightarrow> 'k list \<Rightarrow> ('k \<times> 'v) list" where
  "range_map m ks = List.map_filter (\<lambda>k. map_option (Pair k) (m k)) ks"

definition range_order :: "('k \<rightharpoonup> 'v) \<Rightarrow> 'k list \<Rightarrow> bool" where
  "range_order m ks \<longleftrightarrow> distinct ks \<and> set ks = dom m"

subsection \<open>Creating topics and lines\<close>

definition newTopic :: "string \<Rightarrow> error + 'l topic" where
  "newTopic nm =
     Inr (start \<lparr>name = nm, lines = Map.empty, head = 0, tail = 0,
                 quit = Open, running = False\<rparr>)"

definition genQueueStore ::
  "string list \<Rightarrow> ('st, 'l) UnitedQueue \<Rightarrow> error + unitedQueueStore" where
  "genQueueStore ks u = Inr \<lparr>Topics = map fst (range_map (topics u) ks)\<rparr>"

definition exportQueue ::
  "('st, 'l, 'ls) env \<Rightarrow> string list \<Rightarrow> ('st, 'l) UnitedQueue
     \<Rightarrow> error option \<times> ('st, 'l) UnitedQueue" where
  "exportQueue E ks u =
     (case genQueueStore ks u of
        Inl err \<Rightarrow> (Some err, u)
      | Inr queueStoreValue \<Rightarrow>
          (case gob_Encode_queue E queueStoreValue of
             Inl err \<Rightarrow> (Some err, u)
           | Inr buffer \<Rightarrow>
               (case storage_Set E (storage u) StorageKeyWord buffer of
                  (Some err, st) \<Rightarrow> (Some err, u\<lparr>storage := st\<rparr>)
                | (None, st) \<Rightarrow> (None, u\<lparr>storage := st\<rparr>))))"

definition createTopic ::
  "('st, 'l, 'ls) env \<Rightarrow> string list \<Rightarrow> ('st, 'l) UnitedQueue \<Rightarrow> string
     \<Rightarrow> error option \<times> ('st, 'l) UnitedQueue" where
  "createTopic E ks u nm =
     (case topics u nm of
        Some _ \<Rightarrow> (Some ErrTopicExisted, u)
      | None \<Rightarrow>
          (case newTopic nm of
             Inl err \<Rightarrow> (Some err, u)
           | Inr t \<Rightarrow>
               (case exportQueue E ks (u\<lparr>topics := (topics u)(nm \<mapsto> t)\<rparr>) of
                  (Some err, u') \<Rightarrow> (Some err, u'\<lparr>topics := (topics u')(nm := None)\<rparr>)
                | (None, u') \<Rightarrow> (None, u'))))"

definition Create ::
  "('st, 'l, 'ls) env \<Rightarrow> string list \<Rightarrow> ('st, 'l) UnitedQueue \<Rightarrow> CreateRequest
     \<Rightarrow> error option \<times> ('st, 'l) UnitedQueue" where
  "Create E ks u cr =
     (if LineName cr \<noteq> [] then
        (case topics u (TopicName cr) of
           None \<Rightarrow> (Some ErrTopicNotExisted, u)
         | Some t \<Rightarrow>
             (case topic_CreateLine E (storage u) t (LineName cr) (Recycle cr) of
                (err, t', st) \<Rightarrow>
                  (err, u\<lparr>topics := (topics u)(TopicName cr \<mapsto> t'), storage := st\<rparr>)))
      else if TopicName cr \<noteq> [] then createTopic E ks u (TopicName cr)
      else (Some ErrKey, u))"

subsection \<open>Export of the topics\<close>

text \<open>
  The loop of \<^verbatim>\<open>exportTopics\<close> over the topics in the order of the range: a failed
  \<^verbatim>\<open>exportLines\<close> skips \<^verbatim>\<open>exportTopic\<close> for that topic, and either failure
  is logged and the loop goes on. Only the storage changes.
\<close>

fun exportTopics_loop :: "('st, 'l, 'ls) env \<Rightarrow> 'l topic list \<Rightarrow> 'st \<Rightarrow> 'st" where
  "exportTopics_loop E [] st = st"
| "exportTopics_loop E (t # ts) st =
     (case topic_exportLines E st t of
        (Some err, st1) \<Rightarrow> exportTopics_loop E ts st1
      | (None, st1) \<Rightarrow>
          (case topic_exportTopic E st1 t of
             (Some err, st2) \<Rightarrow> exportTopics_loop E ts st2
           | (None, st2) \<Rightarrow> exportTopics_loop E ts st2))"

definition exportTopics ::
  "('st, 'l, 'ls) env \<Rightarrow> string list \<Rightarrow> ('st, 'l) UnitedQueue
     \<Rightarrow> error option \<times> ('st, 'l) UnitedQueue" where
  "exportTopics E ks u =
     (None, u\<lparr>storage :=
        exportTopics_loop E (map snd (range_map (topics u) ks)) (storage u)\<rparr>)"

subsection \<open>Close\<close>

datatype panic = CloseOfClosedChannel

text \<open>The first loop of \<^verbatim>\<open>Close\<close>: \<^verbatim>\<open>close(t.quit)\<close> for every topic.\<close>

fun Close_quits ::
  "string list \<Rightarrow> (string \<rightharpoonup> 'l topic) \<Rightarrow> panic + (string \<rightharpoonup> 'l topic)" where
  "Close_quits [] m = Inr m"
| "Close_quits (k # ks) m =
     (case m k of
        None \<Rightarrow> Close_quits ks m
      | Some t \<Rightarrow>
          (case quit t of
             Closed \<Rightarrow> Inl CloseOfClosedChannel
           | Open \<Rightarrow> Close_quits ks (m(k \<mapsto> t\<lparr>quit := Closed\<rparr>))))"

text \<open>\<open>ks1\<close> is the order of the first range over the topics, \<open>ks2\<close> the order of
  the range in \<^verbatim>\<open>exportTopics\<close>. A panic leaves \<^verbatim>\<open>Close\<close> at once.\<close>

definition Close ::
  "('st, 'l, 'ls) env \<Rightarrow> string list \<Rightarrow> string list \<Rightarrow> ('st, 'l) UnitedQueue
     \<Rightarrow> panic + ('st, 'l) UnitedQueue" where
  "Close E ks1 ks2 u =
     (case Close_quits ks1 (topics u) of
        Inl p \<Rightarrow> Inl p
      | Inr m \<Rightarrow>
          (case exportTopics E ks2 (u\<lparr>topics := m\<rparr>) of
             (err, u') \<Rightarrow> Inr (u'\<lparr>storage := storage_Close E (storage u')\<rparr>)))"

subsection \<open>Push, Pop, Confirm\<close>

definition Push ::
  "('st, 'l, 'ls) env \<Rightarrow> ('st, 'l) UnitedQueue \<Rightarrow> string \<Rightarrow> bytes
     \<Rightarrow> error option \<times> ('st, 'l) UnitedQueue" where
  "Push E u nm data =
     (case topics u nm of
        None \<Rightarrow> (Some ErrTopicNotExisted, u)
      | Some t \<Rightarrow>
          (case topic_Push E (storage u) t data of
             (err, t', st) \<Rightarrow> (err, u\<lparr>topics := (topics u)(nm \<mapsto> t'), storage := st\<rparr>)))"

text \<open>\<^verbatim>\<open>strings.Split(s, sep)\<close> for a separator of one byte: the pieces of \<open>s\<close>
  between the occurrences of \<open>sep\<close>, one more than there are occurrences.\<close>

fun Split :: "string \<Rightarrow> char \<Rightarrow> string list" where
  "Split [] sep = [[]]"
| "Split (c # cs) sep =
     (if c = sep then [] # Split cs sep
      else (case Split cs sep of
              [] \<Rightarrow> [[c]]
            | p # ps \<Rightarrow> (c # p) # ps))"

definition Pop ::
  "('st, 'l, 'ls) env \<Rightarrow> ('st, 'l) UnitedQueue \<Rightarrow> string
     \<Rightarrow> (error + 64 word \<times> bytes) \<times> ('st, 'l) UnitedQueue" where
  "Pop E u nm =
     (let parts = Split nm (CHR ''/'') in
      if length parts \<noteq> 2 then (Inl ErrKey, u)
      else
        (let tName = parts ! 0; lName = parts ! 1 in
         case topics u tName of
           None \<Rightarrow> (Inl ErrTopicNotExisted, u)
         | Some t \<Rightarrow>
             (case topic_pop E (storage u) t lName of
                (r, t', st) \<Rightarrow>
                  (r, u\<lparr>topics := (topics u)(tName \<mapsto> t'), storage := st\<rparr>))))"

definition Confirm ::
  "('st, 'l, 'ls) env \<Rightarrow> ('st, 'l) UnitedQueue \<Rightarrow> ConfirmRequest
     \<Rightarrow> error option \<times> ('st, 'l) UnitedQueue" where
  "Confirm E u cr =
     (case topics u (TopicName cr) of
        None \<Rightarrow> (Some ErrTopicNotExisted, u)
      | Some t \<Rightarrow>
          (case topic_confirm E (storage u) t (LineName cr) (ID cr) of
             (err, t', st) \<Rightarrow>
               (err, u\<lparr>topics := (topics u)(TopicName cr \<mapsto> t'), storage := st\<rparr>)))"

subsection \<open>Recovery at startup\<close>

text \<open>The loop of \<^verbatim>\<open>loadTopic\<close> over the line names of the topic record; \<open>ls\<close> is
  the map \<^verbatim>\<open>lines\<close> being filled. A line whose record cannot be read, is empty,
  does not decode or is refused by \<^verbatim>\<open>loadLine\<close> is passed over.\<close>

fun loadTopic_lines ::
  "('st, 'l, 'ls) env \<Rightarrow> 'st \<Rightarrow> 'l topic \<Rightarrow> string \<Rightarrow> string list
     \<Rightarrow> (string \<rightharpoonup> 'l) \<Rightarrow> (string \<rightharpoonup> 'l)" where
  "loadTopic_lines E st t topicName [] ls = ls"
| "loadTopic_lines E st t topicName (lineName # rest) ls =
     (let lineStoreKey = topicName @ ''/'' @ lineName in
      case storage_Get E st lineStoreKey of
        Inl err \<Rightarrow> loadTopic_lines E st t topicName rest ls
      | Inr lineStoreData \<Rightarrow>
          if length lineStoreData = 0 then loadTopic_lines E st t topicName rest ls
          else
            (case gob_Decode_line E lineStoreData of
               Inl e \<Rightarrow> loadTopic_lines E st t topicName rest ls
             | Inr lineStoreValue \<Rightarrow>
                 (case topic_loadLine E t lineName lineStoreValue of
                    Inl err \<Rightarrow> loadTopic_lines E st t topicName rest ls
                  | Inr l \<Rightarrow>
                      loadTopic_lines E st t topicName rest (ls(lineName \<mapsto> l)))))"

definition loadTopic ::
  "('st, 'l, 'ls) env \<Rightarrow> ('st, 'l) UnitedQueue \<Rightarrow> string \<Rightarrow> topicStore
     \<Rightarrow> error + 'l topic" where
  "loadTopic E u topicName topicStoreValue =
     (let t = \<lparr>name = topicName, lines = Map.empty, head = Head topicStoreValue,
                tail = Tail topicStoreValue, quit = Open, running = False\<rparr>;
          ls = loadTopic_lines E (storage u) t topicName (Lines topicStoreValue) Map.empty
      in Inr (start (t\<lparr>lines := ls\<rparr>)))"

text \<open>The loop of \<^verbatim>\<open>loadQueue\<close> over the topic names of the engine record.\<close>

fun loadQueue_topics ::
  "('st, 'l, 'ls) env \<Rightarrow> string list \<Rightarrow> ('st, 'l) UnitedQueue \<Rightarrow> ('st, 'l) UnitedQueue" where
  "loadQueue_topics E [] u = u"
| "loadQueue_topics E (topicName # rest) u =
     (case storage_Get E (storage u) topicName of
        Inl err \<Rightarrow> loadQueue_topics E rest u
      | Inr topicStoreData \<Rightarrow>
          if length topicStoreData = 0 then loadQueue_topics E rest u
          else
            (case gob_Decode_topic E topicStoreData of
               Inl e \<Rightarrow> loadQueue_topics E rest u
             | Inr topicStoreValue \<Rightarrow>
                 (case loadTopic E u topicName topicStoreValue of
                    Inl err \<Rightarrow> loadQueue_topics E rest u
                  | Inr t \<Rightarrow>
                      loadQueue_topics E rest (u\<lparr>topics := (topics u)(topicName \<mapsto> t)\<rparr>))))"

definition loadQueue ::
  "('st, 'l, 'ls) env \<Rightarrow> ('st, 'l) UnitedQueue \<Rightarrow> error option \<times> ('st, 'l) UnitedQueue" where
  "loadQueue E u =
     (case storage_Get E (storage u) StorageKeyWord of
        Inl err \<Rightarrow> (None, u)
      | Inr unitedQueueStoreData \<Rightarrow>
          if length unitedQueueStoreData > 0 then
            (case gob_Decode_queue E unitedQueueStoreData of
               Inr unitedQueueStoreValue \<Rightarrow>
                 (None, loadQueue_topics E (Topics unitedQueueStoreValue) u)
             | Inl e \<Rightarrow> (None, u))
          else (None, u))"

definition NewUnitedQueue ::
  "('st, 'l, 'ls) env \<Rightarrow> 'st \<Rightarrow> error + ('st, 'l) UnitedQueue" where
  "NewUnitedQueue E st =
     (let u = \<lparr>topics = Map.empty, storage = st\<rparr> in
      case loadQueue E u of
        (Some err, u') \<Rightarrow> Inl err
      | (None, u') \<Rightarrow> Inr u')"

subsection \<open>What the storage holds\<close>

text \<open>
  The record the recovery reads under a key, when there is one: \<^verbatim>\<open>Get\<close> returns no
  error, the data is not empty and it decodes. \<open>loaded_line\<close> is the line that
  \<^verbatim>\<open>loadLine\<close> makes of a line record, \<open>loaded_topic\<close> the topic that a topic
  record gives, with every line of the record that can be loaded.
\<close>

definition engine_record :: "('st, 'l, 'ls) env \<Rightarrow> 'st \<Rightarrow> unitedQueueStore option" where
  "engine_record E st =
     (case storage_Get E st StorageKeyWord of
        Inl err \<Rightarrow> None
      | Inr d \<Rightarrow> if d = [] then None
                 else (case gob_Decode_queue E d of Inl e \<Rightarrow> None | Inr v \<Rightarrow> Some v))"

definition topic_record :: "('st, 'l, 'ls) env \<Rightarrow> 'st \<Rightarrow> string \<Rightarrow> topicStore option" where
  "topic_record E st topicName =
     (case storage_Get E st topicName of
        Inl err \<Rightarrow> None
      | Inr d \<Rightarrow> if d = [] then None
                 else (case gob_Decode_topic E d of Inl e \<Rightarrow> None | Inr v \<Rightarrow> Some v))"

definition line_record :: "('st, 'l, 'ls) env \<Rightarrow> 'st \<Rightarrow> string \<Rightarrow> string \<Rightarrow> 'ls option" where
  "line_record E st topicName lineName =
     (case storage_Get E st (topicName @ ''/'' @ lineName) of
        Inl err \<Rightarrow> None
      | Inr d \<Rightarrow> if d = [] then None
                 else (case gob_Decode_line E d of Inl e \<Rightarrow> None | Inr v \<Rightarrow> Some v))"

definition loaded_line ::
  "('st, 'l, 'ls) env \<Rightarrow> 'st \<Rightarrow> 'l topic \<Rightarrow> string \<Rightarrow> string \<Rightarrow> 'l option" where
  "loaded_line E st t topicName lineName =
     (case line_record E st topicName lineName of
        None \<Rightarrow> None
      | Some v \<Rightarrow> (case topic_loadLine E t lineName v of Inl err \<Rightarrow> None | Inr l \<Rightarrow> Some l))"

definition loaded_topic ::
  "('st, 'l, 'ls) env \<Rightarrow> 'st \<Rightarrow> string \<Rightarrow> topicStore \<Rightarrow> 'l topic" where
  "loaded_topic E st topicName v =
     \<lparr>name = topicName,
      lines = (\<lambda>l. if l \<in> set (Lines v)
                   then loaded_line E st
                          \<lparr>name = topicName, lines = Map.empty, head = Head v, tail = Tail v,
                           quit = Open, running = False\<rparr> topicName l
                   else None),
      head = Head v, tail = Tail v, quit = Open, running = True\<rparr>"

section \<open>An in-memory instance\<close>

text \<open>
  A storage adapter over an association list whose keys in \<open>faulty\<close> fail on every
  access, a framed codec of one tag byte and names ended by a zero byte, and topic
  methods with a line that is its cursor. The theorems below are instantiated with it.
\<close>

record mem =
  cells :: "(string \<times> bytes) list"
  faulty :: "string list"
  closed :: bool

definition mem_Get :: "mem \<Rightarrow> string \<Rightarrow> error + bytes" where
  "mem_Get st k =
     (if k \<in> set (faulty st) then Inl ''storage fault''
      else (case map_of (cells st) k of None \<Rightarrow> Inl ''not found'' | Some d \<Rightarrow> Inr d))"

definition mem_Set :: "mem \<Rightarrow> string \<Rightarrow> bytes \<Rightarrow> error option \<times> mem" where
  "mem_Set st k d =
     (if k \<in> set (faulty st) then (Some ''storage fault'', st)
      else (None, st\<lparr>cells := (k, d) # cells st\<rparr>))"

definition mem_Close :: "mem \<Rightarrow> mem" where
  "mem_Close st = st\<lparr>closed := True\<rparr>"

definition byte_of_char :: "char \<Rightarrow> 8 word" where
  "byte_of_char c = of_char c"

definition char_of_byte :: "8 word \<Rightarrow> char" where
  "char_of_byte b = char_of (unat b)"

fun unframe :: "bytes \<Rightarrow> bytes \<Rightarrow> string list" where
  "unframe cur [] = []"
| "unframe cur (b # bs) =
     (if b = 0 then map char_of_byte (rev cur) # unframe [] bs else unframe (b # cur) bs)"

definition frame :: "string list \<Rightarrow> bytes" where
  "frame ss = concat (map (\<lambda>s. map byte_of_char s @ [0]) ss)"

definition mem_Encode_queue :: "unitedQueueStore \<Rightarrow> error + bytes" where
  "mem_Encode_queue v = Inr (1 # frame (Topics v))"

definition mem_Decode_queue :: "bytes \<Rightarrow> error + unitedQueueStore" where
  "mem_Decode_queue d =
     (case d of
        [] \<Rightarrow> Inl ''EOF''
      | b # r \<Rightarrow> if b = 1 then Inr \<lparr>Topics = unframe [] r\<rparr> else Inl ''type mismatch'')"

definition mem_Decode_topic :: "bytes \<Rightarrow> error + topicStore" where
  "mem_Decode_topic d =
     (case d of
        b # h # t # r \<Rightarrow>
          if b = 2 then Inr \<lparr>Head = ucast h, Tail = ucast t, Lines = unframe [] r\<rparr>
          else Inl ''type mismatch''
      | _ \<Rightarrow> Inl ''EOF'')"

definition mem_Decode_line :: "bytes \<Rightarrow> error + 64 word" where
  "mem_Decode_line d =
     (case d of
        [b, c] \<Rightarrow> if b = 3 then Inr (ucast c) else Inl ''type mismatch''
      | _ \<Rightarrow> Inl ''EOF'')"

definition mem_loadLine :: "64 word topic \<Rightarrow> string \<Rightarrow> 64 word \<Rightarrow> error + 64 word" where
  "mem_loadLine t lineName v = Inr v"

definition mem_CreateLine ::
  "mem \<Rightarrow> 64 word topic \<Rightarrow> string \<Rightarrow> 64 word \<Rightarrow> error option \<times> 64 word topic \<times> mem" where
  "mem_CreateLine st t lineName recycle =
     (case lines t lineName of
        Some l \<Rightarrow> (Some ErrLineExisted, t, st)
      | None \<Rightarrow> (None, t\<lparr>lines := (lines t)(lineName \<mapsto> tail t)\<rparr>, st))"

definition mem_Push :: "mem \<Rightarrow> 64 word topic \<Rightarrow> bytes \<Rightarrow> error option \<times> 64 word topic \<times> mem" where
  "mem_Push st t d = (None, t\<lparr>tail := tail t + 1\<rparr>, st)"

definition mem_pop ::
  "mem \<Rightarrow> 64 word topic \<Rightarrow> string \<Rightarrow> (error + 64 word \<times> bytes) \<times> 64 word topic \<times> mem" where
  "mem_pop st t lineName =
     (case lines t lineName of
        None \<Rightarrow> (Inl ErrLineNotExisted, t, st)
      | Some l \<Rightarrow>
          if l < tail t then (Inr (l, []), t\<lparr>lines := (lines t)(lineName \<mapsto> l + 1)\<rparr>, st)
          else (Inl ErrNone, t, st))"

definition mem_confirm ::
  "mem \<Rightarrow> 64 word topic \<Rightarrow> string \<Rightarrow> 64 word \<Rightarrow> error option \<times> 64 word topic \<times> mem" where
  "mem_confirm st t lineName i =
     (case lines t lineName of
        None \<Rightarrow> (Some ErrLineNotExisted, t, st)
      | Some l \<Rightarrow> (Some ErrNotDelivered, t, st))"

definition mem_exportLines :: "mem \<Rightarrow> 64 word topic \<Rightarrow> error option \<times> mem" where
  "mem_exportLines st t = (None, st)"

definition mem_exportTopic :: "mem \<Rightarrow> 64 word topic \<Rightarrow> error option \<times> mem" where
  "mem_exportTopic st t = mem_Set st (name t) [2, ucast (head t), ucast (tail t)]"

definition mem_env :: "(mem, 64 word, 64 word) env" where
  "mem_env =
     \<lparr>storage_Get = mem_Get, storage_Set = mem_Set, storage_Close = mem_Close,
      gob_Encode_queue = mem_Encode_queue, gob_Decode_queue = mem_Decode_queue,
      gob_Decode_topic = mem_Decode_topic, gob_Decode_line = mem_Decode_line,
      topic_loadLine = mem_loadLine, topic_CreateLine = mem_CreateLine,
      topic_Push = mem_Push, topic_pop = mem_pop, topic_confirm = mem_confirm,
      topic_exportLines = mem_exportLines, topic_exportTopic = mem_exportTopic\<rparr>"

definition mem_empty :: mem where
  "mem_empty = \<lparr>cells = [], faulty = [], closed = False\<rparr>"

text \<open>The engine with no topic over the empty storage.\<close>

definition mem_engine :: "(mem, 64 word) UnitedQueue" where
  "mem_engine = \<lparr>topics = Map.empty, storage = mem_empty\<rparr>"

text \<open>Storages and engines the theorems are instantiated at: a storage with given
  cells and faulty keys, the topic \<^verbatim>\<open>newTopic\<close> makes, an engine with the topic
  \<open>t\<close>, and an empty engine over a storage that fails at the engine key.\<close>

definition mem_with :: "(string \<times> bytes) list \<Rightarrow> string list \<Rightarrow> mem" where
  "mem_with cs fs = \<lparr>cells = cs, faulty = fs, closed = False\<rparr>"

definition mem_topic :: "string \<Rightarrow> 64 word topic" where
  "mem_topic nm =
     \<lparr>name = nm, lines = Map.empty, head = 0, tail = 0, quit = Open, running = True\<rparr>"

definition mem_engine_t :: "(mem, 64 word) UnitedQueue" where
  "mem_engine_t = \<lparr>topics = [''t'' \<mapsto> mem_topic ''t''], storage = mem_empty\<rparr>"

definition mem_engine_faulty :: "(mem, 64 word) UnitedQueue" where
  "mem_engine_faulty = \<lparr>topics = Map.empty, storage = mem_with [] [StorageKeyWord]\<rparr>"


definition mem_engine_noname :: "(mem, 64 word) UnitedQueue" where
  "mem_engine_noname =
     \<lparr>topics = [[] \<mapsto> mem_topic []],
      storage = mem_with [(StorageKeyWord, [1, 0]), ([], [2, 0, 0])] []\<rparr>"

definition mem_store_t :: mem where
  "mem_store_t = mem_with [(StorageKeyWord, [1, 116, 0]), (''t'', [2, 0, 3])] []"

definition mem_stored :: "string \<Rightarrow> topicStore" where
  "mem_stored n = \<lparr>Head = 0, Tail = 3, Lines = []\<rparr>"

definition mem_store_abc :: mem where
  "mem_store_abc =
     mem_with [(StorageKeyWord, [1, 97, 0, 98, 0, 99, 0]),
               (''b'', [2, 1, 5, 120, 0, 121, 0]),
               (''b/x'', []), (''b/y'', [3, 4]), (''c'', [9])] [''a'']"

definition mem_engine_ab :: "(mem, 64 word) UnitedQueue" where
  "mem_engine_ab =
     \<lparr>topics = [''a'' \<mapsto> mem_topic ''a'', ''b'' \<mapsto> mem_topic ''b''],
      storage = mem_with [] [''a'']\<rparr>"

definition mem_engine_t_closed :: "(mem, 64 word) UnitedQueue" where
  "mem_engine_t_closed =
     \<lparr>topics = [''t'' \<mapsto> (mem_topic ''t'')\<lparr>quit := Closed\<rparr>],
      storage = \<lparr>cells = [(''t'', [2, 0, 0])], faulty = [], closed = True\<rparr>\<rparr>"

section \<open>Properties\<close>

subsection \<open>The recovery, entry by entry\<close>

lemma loadTopic_lines_apply:
  "loadTopic_lines E st t tn lns acc l =
     (if l \<in> set lns then (case loaded_line E st t tn l of None \<Rightarrow> acc l | Some x \<Rightarrow> Some x)
      else acc l)"
  by (induction lns arbitrary: acc)
     (auto simp: loaded_line_def line_record_def Let_def split: sum.splits option.splits)

lemma loadTopic_eq: "loadTopic E u tn v = Inr (loaded_topic E (storage u) tn v)"
  by (auto simp: loadTopic_def loaded_topic_def Let_def start_def loadTopic_lines_apply fun_eq_iff
           split: option.splits)

lemma loadQueue_topics_storage: "storage (loadQueue_topics E ns u) = storage u"
  by (induction ns arbitrary: u) (auto split: sum.splits)

lemma loadQueue_topics_apply:
  "topics (loadQueue_topics E ns u) n =
     (if n \<in> set ns
      then (case topic_record E (storage u) n of
              None \<Rightarrow> topics u n
            | Some v \<Rightarrow> Some (loaded_topic E (storage u) n v))
      else topics u n)"
  by (induction ns arbitrary: u)
     (auto simp: topic_record_def loadTopic_eq split: sum.splits option.splits)

lemma loadQueue_eq:
  "loadQueue E u =
     (None, case engine_record E (storage u) of
              None \<Rightarrow> u
            | Some v \<Rightarrow> loadQueue_topics E (Topics v) u)"
  by (auto simp: loadQueue_def engine_record_def split: sum.splits)



lemma engine_record_Some_iff:
  "engine_record E st = Some v \<longleftrightarrow>
     (\<exists>d. storage_Get E st StorageKeyWord = Inr d \<and> d \<noteq> [] \<and> gob_Decode_queue E d = Inr v)"
  by (auto simp: engine_record_def split: sum.splits)

lemma topic_record_None_iff:
  "topic_record E st n = None \<longleftrightarrow>
     (\<exists>err. storage_Get E st n = Inl err) \<or> storage_Get E st n = Inr []
     \<or> (\<exists>d e. storage_Get E st n = Inr d \<and> gob_Decode_topic E d = Inl e)"
  by (auto simp: topic_record_def split: sum.splits)

lemma loaded_line_None_iff:
  "loaded_line E st t tn l = None \<longleftrightarrow>
     (\<exists>err. storage_Get E st (tn @ ''/'' @ l) = Inl err)
     \<or> storage_Get E st (tn @ ''/'' @ l) = Inr []
     \<or> (\<exists>d e. storage_Get E st (tn @ ''/'' @ l) = Inr d \<and> gob_Decode_line E d = Inl e)
     \<or> (\<exists>d lv err. storage_Get E st (tn @ ''/'' @ l) = Inr d \<and> gob_Decode_line E d = Inr lv
           \<and> topic_loadLine E t l lv = Inl err)"
  by (auto simp: loaded_line_def line_record_def split: sum.splits option.splits)

subsection \<open>Ranging, splitting, exporting, closing\<close>

lemma range_map_keys: "\<forall>k\<in>set ks. m k \<noteq> None \<Longrightarrow> map fst (range_map m ks) = ks"
  by (induction ks) (auto simp: range_map_def map_filter_def)

lemma range_map_map_option:
  "range_map (\<lambda>k. map_option f (m k)) ks = map (\<lambda>(k, x). (k, f x)) (range_map m ks)"
  by (induction ks) (auto simp: range_map_def map_filter_def)

lemma range_order_keys: "range_order m ks \<Longrightarrow> map fst (range_map m ks) = ks"
  by (rule range_map_keys) (auto simp: range_order_def)

lemma length_Split: "length (Split s c) = Suc (length (filter ((=) c) s))"
  by (induction s) (auto split: list.splits)

lemma Split_no_sep: "c \<notin> set a \<Longrightarrow> Split a c = [a]"
  by (induction a) auto

lemma Split_two: "c \<notin> set a \<Longrightarrow> c \<notin> set b \<Longrightarrow> Split (a @ c # b) c = [a, b]"
  by (induction a) (auto simp: Split_no_sep)

lemma exportTopics_loop_append:
  "exportTopics_loop E (ts @ ts') st = exportTopics_loop E ts' (exportTopics_loop E ts st)"
  by (induction ts arbitrary: st) (auto split: prod.splits option.splits)

lemma exportTopics_loop_foldl:
  "exportTopics_loop E ts st = foldl (\<lambda>s t. exportTopics_loop E [t] s) st ts"
  by (induction ts arbitrary: st) (auto split: prod.splits option.splits)

lemma Close_quits_open:
  "distinct ks \<Longrightarrow> \<forall>k\<in>set ks. \<forall>t. m k = Some t \<longrightarrow> quit t = Open \<Longrightarrow>
   Close_quits ks m =
     Inr (\<lambda>k. if k \<in> set ks then map_option (\<lambda>t. t\<lparr>quit := Closed\<rparr>) (m k) else m k)"
proof (induction ks arbitrary: m)
  case Nil
  then show ?case by simp
next
  case (Cons k ks)
  show ?case
  proof (cases "m k")
    case None
    with Cons show ?thesis by (auto simp: fun_eq_iff)
  next
    case (Some t)
    let ?m = "m(k \<mapsto> t\<lparr>quit := Closed\<rparr>)"
    from Cons.prems Some have q: "quit t = Open" by simp
    from Cons.prems have k: "k \<notin> set ks" and d: "distinct ks" by simp_all
    from Cons.prems k have "\<forall>k'\<in>set ks. \<forall>t'. ?m k' = Some t' \<longrightarrow> quit t' = Open"
      by auto
    from Cons.IH [OF d this]
    have "Close_quits ks ?m =
            Inr (\<lambda>x. if x \<in> set ks then map_option (\<lambda>t. t\<lparr>quit := Closed\<rparr>) (?m x) else ?m x)" .
    moreover have "(\<lambda>x. if x \<in> set ks then map_option (\<lambda>t. t\<lparr>quit := Closed\<rparr>) (?m x) else ?m x)
                   = (\<lambda>x. if x \<in> set (k # ks) then map_option (\<lambda>t. t\<lparr>quit := Closed\<rparr>) (m x)
                           else m x)"
      using k Some by (auto simp: fun_eq_iff)
    moreover have "Close_quits (k # ks) m = Close_quits ks ?m"
      using Some q by simp
    ultimately show ?thesis by simp
  qed
qed

lemma Close_quits_closed:
  "m k = Some t \<Longrightarrow> quit t = Closed \<Longrightarrow> k \<in> set ks \<Longrightarrow> \<exists>p. Close_quits ks m = Inl p"
proof (induction ks arbitrary: m)
  case Nil
  then show ?case by simp
next
  case (Cons a ks)
  then show ?case
    by (cases "a = k") (auto split: option.splits chan.splits)
qed

subsection \<open>Facts about the in-memory instance\<close>

lemma mem_loaded_noname:
  "NewUnitedQueue mem_env (mem_with [(StorageKeyWord, [1, 0]), ([], [2, 0, 0])] [])
     = Inr mem_engine_noname"
  by (simp add: NewUnitedQueue_def loadQueue_def mem_env_def mem_Get_def mem_with_def
        StorageKeyWord_def mem_Decode_queue_def mem_Decode_topic_def loadTopic_def Let_def
        start_def mem_engine_noname_def mem_topic_def)

lemma mem_newTopic: "newTopic nm = Inr (mem_topic nm)"
  by (simp add: newTopic_def start_def mem_topic_def)

lemma mem_Encode_t: "gob_Encode_queue mem_env \<lparr>Topics = [''t'']\<rparr> = Inr [1, 116, 0]"
  by (simp add: mem_env_def mem_Encode_queue_def frame_def byte_of_char_def)

lemma mem_engine_t_topic: "topics mem_engine_t ''t'' = Some (mem_topic ''t'')"
  by (simp add: mem_engine_t_def)

lemma Split_t_l: "Split ''t/l'' (CHR ''/'') = [''t'', ''l'']"
  by simp

lemma char_of_byte_values:
  "char_of_byte 97 = CHR ''a''" "char_of_byte 98 = CHR ''b''" "char_of_byte 99 = CHR ''c''"
  "char_of_byte 116 = CHR ''t''" "char_of_byte 120 = CHR ''x''" "char_of_byte 121 = CHR ''y''"
  by code_simp+

lemma mem_Decode_t: "gob_Decode_queue mem_env [1, 116, 0] = Inr \<lparr>Topics = [''t'']\<rparr>"
  by (simp add: mem_env_def mem_Decode_queue_def char_of_byte_values)

lemma mem_record_abc:
  "engine_record mem_env mem_store_abc = Some \<lparr>Topics = [''a'', ''b'', ''c'']\<rparr>"
  by (simp add: engine_record_def mem_env_def mem_Get_def mem_store_abc_def mem_with_def
        StorageKeyWord_def mem_Decode_queue_def char_of_byte_values)

lemma mem_record_a: "topic_record mem_env mem_store_abc ''a'' = None"
  by (simp add: topic_record_def mem_env_def mem_Get_def mem_store_abc_def mem_with_def)

lemma mem_record_c: "topic_record mem_env mem_store_abc ''c'' = None"
  by (simp add: topic_record_def mem_env_def mem_Get_def mem_store_abc_def mem_with_def
        StorageKeyWord_def mem_Decode_topic_def)

lemma mem_record_b:
  "topic_record mem_env mem_store_abc ''b'' = Some \<lparr>Head = 1, Tail = 5, Lines = [''x'', ''y'']\<rparr>"
  by (simp add: topic_record_def mem_env_def mem_Get_def mem_store_abc_def mem_with_def
        StorageKeyWord_def mem_Decode_topic_def char_of_byte_values)

lemma mem_line_x: "loaded_line mem_env mem_store_abc t ''b'' ''x'' = None"
  by (simp add: loaded_line_def line_record_def mem_env_def mem_Get_def mem_store_abc_def
        mem_with_def StorageKeyWord_def)

lemma mem_line_y: "loaded_line mem_env mem_store_abc t ''b'' ''y'' = Some 4"
  by (simp add: loaded_line_def line_record_def mem_env_def mem_Get_def mem_store_abc_def
        mem_with_def StorageKeyWord_def mem_Decode_line_def mem_loadLine_def)

lemma mem_order_t: "range_order (topics mem_engine_t) [''t'']"
  by (simp add: range_order_def mem_engine_t_def)

lemma mem_pop_not_ErrKey: "\<forall>st t l. fst (topic_pop mem_env st t l) \<noteq> Inl ErrKey"
  by (simp add: mem_env_def mem_pop_def ErrKey_def ErrLineNotExisted_def ErrNone_def
        split: option.splits)

lemma mem_order_ab:
  "range_order (topics mem_engine_ab) [''b'', ''a'']"
  "range_order (topics mem_engine_ab) [''a'', ''b'']"
  by (auto simp: range_order_def mem_engine_ab_def)

lemma mem_open_ab: "\<forall>k t. topics mem_engine_ab k = Some t \<longrightarrow> quit t = Open"
  by (auto simp: mem_engine_ab_def mem_topic_def split: if_splits)

subsection \<open>The claims\<close>

text \<open>
  C1. Topic creation is all-or-nothing. Let \<open>t\<close> be the topic \<^verbatim>\<open>newTopic\<close> makes
  for a name that is not registered, \<open>v\<close> the engine record of the map with \<open>t\<close>
  in it and \<open>buffer\<close> its encoding. If the \<^verbatim>\<open>Set\<close> of \<open>buffer\<close> under the engine
  key fails with \<open>err\<close>, then \<^verbatim>\<open>createTopic\<close> returns \<open>err\<close>, the topic map is the
  one before the call (only the storage is as the failed \<^verbatim>\<open>Set\<close> left it), and
  \<^verbatim>\<open>Create\<close> hands the same error to its caller.
\<close>

theorem createTopic_rollback:
  assumes "topics u nm = None"
    and "newTopic nm = Inr t"
    and "genQueueStore ks (u\<lparr>topics := (topics u)(nm \<mapsto> t)\<rparr>) = Inr v"
    and "gob_Encode_queue E v = Inr buffer"
    and "storage_Set E (storage u) StorageKeyWord buffer = (Some err, st)"
  shows "createTopic E ks u nm = (Some err, u\<lparr>storage := st\<rparr>)
         \<and> topics (snd (createTopic E ks u nm)) = topics u
         \<and> (nm \<noteq> [] \<longrightarrow>
              Create E ks u \<lparr>TopicName = nm, LineName = [], Recycle = r\<rparr>
                = (Some err, u\<lparr>storage := st\<rparr>))"
  using assms by (simp add: Create_def createTopic_def exportQueue_def fun_upd_idem)


theorem createTopic_rollback_witness:
  "topics mem_engine_faulty ''t'' = None
   \<and> newTopic ''t'' = Inr (mem_topic ''t'')
   \<and> genQueueStore [''t'']
        (mem_engine_faulty\<lparr>topics := (topics mem_engine_faulty)(''t'' \<mapsto> mem_topic ''t'')\<rparr>)
       = Inr \<lparr>Topics = [''t'']\<rparr>
   \<and> gob_Encode_queue mem_env \<lparr>Topics = [''t'']\<rparr> = Inr [1, 116, 0]
   \<and> storage_Set mem_env (storage mem_engine_faulty) StorageKeyWord [1, 116, 0]
       = (Some ''storage fault'', mem_with [] [StorageKeyWord])
   \<and> createTopic mem_env [''t''] mem_engine_faulty ''t''
       = (Some ''storage fault'', mem_engine_faulty)
   \<and> topics (snd (createTopic mem_env [''t''] mem_engine_faulty ''t''))
       = topics mem_engine_faulty
   \<and> Create mem_env [''t''] mem_engine_faulty \<lparr>TopicName = ''t'', LineName = [], Recycle = 0\<rparr>
       = (Some ''storage fault'', mem_engine_faulty)"
proof -
  have h1: "topics mem_engine_faulty ''t'' = None"
    by (simp add: mem_engine_faulty_def)
  have h3: "genQueueStore [''t'']
              (mem_engine_faulty\<lparr>topics := (topics mem_engine_faulty)(''t'' \<mapsto> mem_topic ''t'')\<rparr>)
            = Inr \<lparr>Topics = [''t'']\<rparr>"
    by (simp add: genQueueStore_def range_map_def map_filter_def)
  have h5: "storage_Set mem_env (storage mem_engine_faulty) StorageKeyWord [1, 116, 0]
            = (Some ''storage fault'', mem_with [] [StorageKeyWord])"
    by (simp add: mem_env_def mem_Set_def mem_engine_faulty_def mem_with_def)
  have same: "mem_engine_faulty\<lparr>storage := mem_with [] [StorageKeyWord]\<rparr> = mem_engine_faulty"
    by (simp add: mem_engine_faulty_def)
  from createTopic_rollback [OF h1 mem_newTopic h3 mem_Encode_t h5, of 0] same
       h1 mem_newTopic h3 mem_Encode_t h5
  show ?thesis by simp
qed


text \<open>
  C5. Create dispatches on the request. With a line name it takes the line branch:
  it fails with \<open>ErrTopicNotExisted\<close> when the topic is unknown and otherwise
  returns what \<^verbatim>\<open>CreateLine\<close> of that topic returns, and no topic is added or
  removed and no other topic is touched. With no line name and a topic name it is
  \<^verbatim>\<open>createTopic\<close>, and every topic registered before is registered unchanged
  after. With neither name it fails with \<open>ErrKey\<close> and the engine is as before.
\<close>

theorem Create_dispatch:
  "(LineName cr \<noteq> [] \<and> topics u (TopicName cr) = None
      \<longrightarrow> Create E ks u cr = (Some ErrTopicNotExisted, u))
   \<and> (LineName cr \<noteq> [] \<and> topics u (TopicName cr) = Some t
      \<longrightarrow> Create E ks u cr =
            (case topic_CreateLine E (storage u) t (LineName cr) (Recycle cr) of
               (err, t', st) \<Rightarrow>
                 (err, u\<lparr>topics := (topics u)(TopicName cr \<mapsto> t'), storage := st\<rparr>))
          \<and> dom (topics (snd (Create E ks u cr))) = dom (topics u)
          \<and> (\<forall>n. n \<noteq> TopicName cr \<longrightarrow> topics (snd (Create E ks u cr)) n = topics u n))
   \<and> (LineName cr = [] \<and> TopicName cr \<noteq> []
      \<longrightarrow> Create E ks u cr = createTopic E ks u (TopicName cr)
          \<and> (\<forall>n t. topics u n = Some t \<longrightarrow> topics (snd (Create E ks u cr)) n = Some t))
   \<and> (LineName cr = [] \<and> TopicName cr = [] \<longrightarrow> Create E ks u cr = (Some ErrKey, u))"
  by (auto simp: Create_def createTopic_def exportQueue_def genQueueStore_def newTopic_def
           split: prod.splits option.splits sum.splits)

theorem Create_dispatch_witness:
  "topics mem_engine ''t'' = None
   \<and> Create mem_env [] mem_engine \<lparr>TopicName = ''t'', LineName = ''l'', Recycle = 0\<rparr>
       = (Some ErrTopicNotExisted, mem_engine)
   \<and> topics mem_engine_t ''t'' = Some (mem_topic ''t'')
   \<and> fst (Create mem_env [] mem_engine_t \<lparr>TopicName = ''t'', LineName = ''l'', Recycle = 0\<rparr>)
       = None
   \<and> dom (topics (snd (Create mem_env [] mem_engine_t
                          \<lparr>TopicName = ''t'', LineName = ''l'', Recycle = 0\<rparr>)))
       = dom (topics mem_engine_t)
   \<and> Create mem_env [''t''] mem_engine \<lparr>TopicName = ''t'', LineName = [], Recycle = 0\<rparr>
       = createTopic mem_env [''t''] mem_engine ''t''
   \<and> topics (snd (Create mem_env [''u'', ''t''] mem_engine_t
                     \<lparr>TopicName = ''u'', LineName = [], Recycle = 0\<rparr>)) ''t''
       = Some (mem_topic ''t'')
   \<and> Create mem_env [] mem_engine \<lparr>TopicName = [], LineName = [], Recycle = 0\<rparr>
       = (Some ErrKey, mem_engine)"
proof -
  have a: "topics mem_engine ''t'' = None"
    by (simp add: mem_engine_def)
  have c: "fst (topic_CreateLine mem_env (storage mem_engine_t) (mem_topic ''t'') ''l'' 0) = None"
    by (simp add: mem_env_def mem_CreateLine_def mem_topic_def)
  from a Create_dispatch
         [where cr = "\<lparr>TopicName = ''t'', LineName = ''l'', Recycle = 0\<rparr>"
            and u = mem_engine and E = mem_env and ks = "[]"]
  have r1: "Create mem_env [] mem_engine \<lparr>TopicName = ''t'', LineName = ''l'', Recycle = 0\<rparr>
              = (Some ErrTopicNotExisted, mem_engine)"
    by simp
  from mem_engine_t_topic c Create_dispatch
         [where cr = "\<lparr>TopicName = ''t'', LineName = ''l'', Recycle = 0\<rparr>"
            and u = mem_engine_t and t = "mem_topic ''t''" and E = mem_env and ks = "[]"]
  have r2: "fst (Create mem_env [] mem_engine_t
                   \<lparr>TopicName = ''t'', LineName = ''l'', Recycle = 0\<rparr>) = None
            \<and> dom (topics (snd (Create mem_env [] mem_engine_t
                          \<lparr>TopicName = ''t'', LineName = ''l'', Recycle = 0\<rparr>)))
               = dom (topics mem_engine_t)"
    by (auto simp: mem_engine_t_def split: prod.splits)
  from Create_dispatch
         [where cr = "\<lparr>TopicName = ''t'', LineName = [], Recycle = 0\<rparr>"
            and u = mem_engine and E = mem_env and ks = "[''t'']"]
  have r3: "Create mem_env [''t''] mem_engine \<lparr>TopicName = ''t'', LineName = [], Recycle = 0\<rparr>
              = createTopic mem_env [''t''] mem_engine ''t''"
    by simp
  from mem_engine_t_topic Create_dispatch
         [where cr = "\<lparr>TopicName = ''u'', LineName = [], Recycle = 0\<rparr>"
            and u = mem_engine_t and E = mem_env and ks = "[''u'', ''t'']"]
  have r4: "topics (snd (Create mem_env [''u'', ''t''] mem_engine_t
                     \<lparr>TopicName = ''u'', LineName = [], Recycle = 0\<rparr>)) ''t''
              = Some (mem_topic ''t'')"
    by fastforce
  from Create_dispatch
         [where cr = "\<lparr>TopicName = [], LineName = [], Recycle = 0\<rparr>"
            and u = mem_engine and E = mem_env and ks = "[]"]
  have r5: "Create mem_env [] mem_engine \<lparr>TopicName = [], LineName = [], Recycle = 0\<rparr>
              = (Some ErrKey, mem_engine)"
    by simp
  from a r1 mem_engine_t_topic r2 r3 r4 r5 show ?thesis by simp
qed
text \<open>
  C7. When the topic is not in the topic map, Push and Confirm, and Pop once the
  path has split into two parts, fail with \<open>ErrTopicNotExisted\<close> and the engine is
  unchanged. When the topic is in the map, each of them returns exactly what the
  method of that topic returns and stores the topic and the storage as the method
  left them: the engine adds no \<open>ErrTopicNotExisted\<close> of its own.
\<close>

theorem unknown_topic_TopicNotFound:
  "(topics u nm = None \<longrightarrow> Push E u nm data = (Some ErrTopicNotExisted, u))
   \<and> (topics u (TopicName cr) = None \<longrightarrow> Confirm E u cr = (Some ErrTopicNotExisted, u))
   \<and> (length (Split p (CHR ''/'')) = 2 \<and> topics u (Split p (CHR ''/'') ! 0) = None
        \<longrightarrow> Pop E u p = (Inl ErrTopicNotExisted, u))
   \<and> (topics u nm = Some t
        \<longrightarrow> Push E u nm data =
              (case topic_Push E (storage u) t data of
                 (err, t', st) \<Rightarrow> (err, u\<lparr>topics := (topics u)(nm \<mapsto> t'), storage := st\<rparr>))
            \<and> fst (Push E u nm data) = fst (topic_Push E (storage u) t data))
   \<and> (topics u (TopicName cr) = Some t
        \<longrightarrow> Confirm E u cr =
              (case topic_confirm E (storage u) t (LineName cr) (ID cr) of
                 (err, t', st) \<Rightarrow>
                   (err, u\<lparr>topics := (topics u)(TopicName cr \<mapsto> t'), storage := st\<rparr>))
            \<and> fst (Confirm E u cr) = fst (topic_confirm E (storage u) t (LineName cr) (ID cr)))
   \<and> (length (Split p (CHR ''/'')) = 2 \<and> topics u (Split p (CHR ''/'') ! 0) = Some t
        \<longrightarrow> Pop E u p =
              (case topic_pop E (storage u) t (Split p (CHR ''/'') ! 1) of
                 (r, t', st) \<Rightarrow>
                   (r, u\<lparr>topics := (topics u)(Split p (CHR ''/'') ! 0 \<mapsto> t'), storage := st\<rparr>))
            \<and> fst (Pop E u p) = fst (topic_pop E (storage u) t (Split p (CHR ''/'') ! 1)))"
  by (simp add: Push_def Confirm_def Pop_def Let_def split: prod.splits)

theorem unknown_topic_TopicNotFound_witness:
  "topics mem_engine ''t'' = None
   \<and> Push mem_env mem_engine ''t'' [1] = (Some ErrTopicNotExisted, mem_engine)
   \<and> Confirm mem_env mem_engine \<lparr>TopicName = ''t'', LineName = ''l'', ID = 0\<rparr>
       = (Some ErrTopicNotExisted, mem_engine)
   \<and> length (Split ''t/l'' (CHR ''/'')) = 2
   \<and> Pop mem_env mem_engine ''t/l'' = (Inl ErrTopicNotExisted, mem_engine)
   \<and> topics mem_engine_t ''t'' = Some (mem_topic ''t'')
   \<and> fst (Push mem_env mem_engine_t ''t'' [1]) = None
   \<and> fst (Confirm mem_env mem_engine_t \<lparr>TopicName = ''t'', LineName = ''l'', ID = 0\<rparr>)
       = Some ErrLineNotExisted
   \<and> fst (Pop mem_env mem_engine_t ''t/l'') = Inl ErrLineNotExisted"
proof -
  have a: "topics mem_engine ''t'' = None"
    by (simp add: mem_engine_def)
  have d1: "fst (topic_Push mem_env (storage mem_engine_t) (mem_topic ''t'') [1]) = None"
    by (simp add: mem_env_def mem_Push_def)
  have d2: "fst (topic_confirm mem_env (storage mem_engine_t) (mem_topic ''t'') ''l'' 0)
            = Some ErrLineNotExisted"
    by (simp add: mem_env_def mem_confirm_def mem_topic_def)
  have d3: "fst (topic_pop mem_env (storage mem_engine_t) (mem_topic ''t'') ''l'')
            = Inl ErrLineNotExisted"
    by (simp add: mem_env_def mem_pop_def mem_topic_def)
  from a unknown_topic_TopicNotFound
         [of mem_engine "''t''" mem_env "[1]"
             "\<lparr>TopicName = ''t'', LineName = ''l'', ID = 0\<rparr>" "''t/l''" "mem_topic ''t''"]
  have absent: "Push mem_env mem_engine ''t'' [1] = (Some ErrTopicNotExisted, mem_engine)
     \<and> Confirm mem_env mem_engine \<lparr>TopicName = ''t'', LineName = ''l'', ID = 0\<rparr>
         = (Some ErrTopicNotExisted, mem_engine)
     \<and> Pop mem_env mem_engine ''t/l'' = (Inl ErrTopicNotExisted, mem_engine)"
    by (simp add: Split_t_l)
  from mem_engine_t_topic d1 d2 d3 unknown_topic_TopicNotFound
         [of mem_engine_t "''t''" mem_env "[1]"
             "\<lparr>TopicName = ''t'', LineName = ''l'', ID = 0\<rparr>" "''t/l''" "mem_topic ''t''"]
  have present: "fst (Push mem_env mem_engine_t ''t'' [1]) = None
     \<and> fst (Confirm mem_env mem_engine_t \<lparr>TopicName = ''t'', LineName = ''l'', ID = 0\<rparr>)
         = Some ErrLineNotExisted
     \<and> fst (Pop mem_env mem_engine_t ''t/l'') = Inl ErrLineNotExisted"
    by (simp add: Split_t_l split: prod.splits)
  from a absent present mem_engine_t_topic show ?thesis
    by (simp add: Split_t_l)
qed

text \<open>
  C9. \<^verbatim>\<open>loadQueue\<close> returns nil on every input, so \<^verbatim>\<open>NewUnitedQueue\<close> always
  returns an engine, the one \<^verbatim>\<open>loadQueue\<close> leaves. When \<^verbatim>\<open>Get\<close> fails at the
  engine key, or the engine record is empty, or it does not decode, that engine has
  an empty topic map.
\<close>

theorem loadQueue_returns_nil:
  "fst (loadQueue E u) = None
   \<and> NewUnitedQueue E st = Inr (snd (loadQueue E \<lparr>topics = Map.empty, storage = st\<rparr>))
   \<and> (storage_Get E st StorageKeyWord = Inl err
        \<longrightarrow> NewUnitedQueue E st = Inr \<lparr>topics = Map.empty, storage = st\<rparr>)
   \<and> (storage_Get E st StorageKeyWord = Inr []
        \<longrightarrow> NewUnitedQueue E st = Inr \<lparr>topics = Map.empty, storage = st\<rparr>)
   \<and> (storage_Get E st StorageKeyWord = Inr d \<and> gob_Decode_queue E d = Inl e
        \<longrightarrow> NewUnitedQueue E st = Inr \<lparr>topics = Map.empty, storage = st\<rparr>)"
  by (auto simp: loadQueue_def NewUnitedQueue_def split: sum.splits)

theorem loadQueue_returns_nil_witness:
  "storage_Get mem_env (mem_with [] [StorageKeyWord]) StorageKeyWord = Inl ''storage fault''
   \<and> NewUnitedQueue mem_env (mem_with [] [StorageKeyWord])
       = Inr \<lparr>topics = Map.empty, storage = mem_with [] [StorageKeyWord]\<rparr>
   \<and> storage_Get mem_env (mem_with [(StorageKeyWord, [])] []) StorageKeyWord = Inr []
   \<and> NewUnitedQueue mem_env (mem_with [(StorageKeyWord, [])] [])
       = Inr \<lparr>topics = Map.empty, storage = mem_with [(StorageKeyWord, [])] []\<rparr>
   \<and> storage_Get mem_env (mem_with [(StorageKeyWord, [7])] []) StorageKeyWord = Inr [7]
   \<and> gob_Decode_queue mem_env [7] = Inl ''type mismatch''
   \<and> NewUnitedQueue mem_env (mem_with [(StorageKeyWord, [7])] [])
       = Inr \<lparr>topics = Map.empty, storage = mem_with [(StorageKeyWord, [7])] []\<rparr>"
proof -
  have g1: "storage_Get mem_env (mem_with [] [StorageKeyWord]) StorageKeyWord
              = Inl ''storage fault''"
    by (simp add: mem_env_def mem_Get_def mem_with_def)
  have g2: "storage_Get mem_env (mem_with [(StorageKeyWord, [])] []) StorageKeyWord = Inr []"
    by (simp add: mem_env_def mem_Get_def mem_with_def)
  have g3: "storage_Get mem_env (mem_with [(StorageKeyWord, [7])] []) StorageKeyWord = Inr [7]"
    by (simp add: mem_env_def mem_Get_def mem_with_def)
  have d3: "gob_Decode_queue mem_env [7] = Inl ''type mismatch''"
    by (simp add: mem_env_def mem_Decode_queue_def)
  from g1 loadQueue_returns_nil
         [where E = mem_env and st = "mem_with [] [StorageKeyWord]" and err = "''storage fault''"]
  have r1: "NewUnitedQueue mem_env (mem_with [] [StorageKeyWord])
              = Inr \<lparr>topics = Map.empty, storage = mem_with [] [StorageKeyWord]\<rparr>"
    by blast
  from g2 loadQueue_returns_nil [where E = mem_env and st = "mem_with [(StorageKeyWord, [])] []"]
  have r2: "NewUnitedQueue mem_env (mem_with [(StorageKeyWord, [])] [])
              = Inr \<lparr>topics = Map.empty, storage = mem_with [(StorageKeyWord, [])] []\<rparr>"
    by blast
  from g3 d3 loadQueue_returns_nil
         [where E = mem_env and st = "mem_with [(StorageKeyWord, [7])] []" and d = "[7]"
            and e = "''type mismatch''"]
  have r3: "NewUnitedQueue mem_env (mem_with [(StorageKeyWord, [7])] [])
              = Inr \<lparr>topics = Map.empty, storage = mem_with [(StorageKeyWord, [7])] []\<rparr>"
    by blast
  from g1 g2 g3 d3 r1 r2 r3 show ?thesis by blast
qed


text \<open>
  C10. For every engine state with no topic registered under the empty name, a
  Create call with a non-empty line name and an empty topic name takes the line
  branch, looks the empty topic name up and fails with \<open>ErrTopicNotExisted\<close>
  (and not with \<open>ErrKey\<close>); the engine is left as it was.
\<close>

theorem Create_line_empty_topic:
  assumes "LineName cr \<noteq> []" and "TopicName cr = []" and "topics u [] = None"
  shows "Create E ks u cr = (Some ErrTopicNotExisted, u)
         \<and> ErrTopicNotExisted \<noteq> ErrKey"
  using assms by (simp add: Create_def ErrTopicNotExisted_def ErrKey_def)

theorem Create_line_empty_topic_witness:
  "LineName \<lparr>TopicName = [], LineName = ''l'', Recycle = 0\<rparr> \<noteq> []
   \<and> TopicName \<lparr>TopicName = [], LineName = ''l'', Recycle = 0\<rparr> = []
   \<and> topics mem_engine [] = None
   \<and> Create mem_env [] mem_engine \<lparr>TopicName = [], LineName = ''l'', Recycle = 0\<rparr>
       = (Some ErrTopicNotExisted, mem_engine)
   \<and> ErrTopicNotExisted \<noteq> ErrKey"
  using Create_line_empty_topic
          [of "\<lparr>TopicName = [], LineName = ''l'', Recycle = 0\<rparr>" mem_engine mem_env "[]"]
  by (simp add: mem_engine_def)

text \<open>
  C2. Export and load round trip. Let \<open>ks\<close> be an order in which Go ranges over the
  topics of the engine, \<open>v\<close> the engine record \<^verbatim>\<open>genQueueStore\<close> builds and
  \<open>buffer\<close> its gob encoding, which is what \<^verbatim>\<open>exportQueue\<close> hands to \<^verbatim>\<open>Set\<close>
  under the engine key; gob reads \<open>buffer\<close> back as \<open>v\<close>. Run \<^verbatim>\<open>loadQueue\<close> on a
  fresh engine over any storage that holds \<open>buffer\<close> under the engine key and, for
  every topic name \<open>n\<close> of the engine, a readable topic record \<open>stored n\<close>. Then
  the loaded topic map has the same set of names, and the topic loaded for \<open>n\<close>
  has the head and the tail of \<open>stored n\<close>.
\<close>

theorem export_load_roundtrip:
  fixes E :: "('st, 'l, 'ls) env" and u :: "('st, 'l) UnitedQueue"
  assumes ord: "range_order (topics u) ks"
    and gen: "genQueueStore ks u = Inr v"
    and enc: "gob_Encode_queue E v = Inr buffer"
    and nonempty: "buffer \<noteq> []"
    and dec: "gob_Decode_queue E buffer = Inr v"
    and held: "storage_Get E st StorageKeyWord = Inr buffer"
    and recs: "\<forall>n\<in>dom (topics u). topic_record E st n = Some (stored n)"
  shows "exportQueue E ks u =
           (fst (storage_Set E (storage u) StorageKeyWord buffer),
            u\<lparr>storage := snd (storage_Set E (storage u) StorageKeyWord buffer)\<rparr>)
         \<and> fst (loadQueue E \<lparr>topics = Map.empty, storage = st\<rparr>) = None
         \<and> dom (topics (snd (loadQueue E \<lparr>topics = Map.empty, storage = st\<rparr>)))
             = dom (topics u)
         \<and> (\<forall>n\<in>dom (topics u).
               \<exists>t. topics (snd (loadQueue E \<lparr>topics = Map.empty, storage = st\<rparr>)) n = Some t
                 \<and> head t = Head (stored n) \<and> tail t = Tail (stored n))"
proof -
  let ?u0 = "\<lparr>topics = Map.empty, storage = st\<rparr> :: ('st, 'l) UnitedQueue"
  from gen ord have v: "Topics v = ks"
    by (auto simp: genQueueStore_def range_order_keys)
  from held nonempty dec have er: "engine_record E (storage ?u0) = Some v"
    by (simp add: engine_record_def)
  have tp: "\<And>n. topics (snd (loadQueue E ?u0)) n =
              (if n \<in> set ks then map_option (loaded_topic E st n) (topic_record E st n)
               else None)"
    using er v by (simp add: loadQueue_eq loadQueue_topics_apply split: option.splits)
  from ord have ks: "set ks = dom (topics u)"
    by (simp add: range_order_def)
  have ex: "exportQueue E ks u =
           (fst (storage_Set E (storage u) StorageKeyWord buffer),
            u\<lparr>storage := snd (storage_Set E (storage u) StorageKeyWord buffer)\<rparr>)"
    using gen enc by (auto simp: exportQueue_def split: prod.splits option.splits)
  have d: "dom (topics (snd (loadQueue E ?u0))) = dom (topics u)"
    using recs ks by (auto simp: tp dom_def split: if_splits)
  have h: "\<forall>n\<in>dom (topics u).
               \<exists>t. topics (snd (loadQueue E ?u0)) n = Some t
                 \<and> head t = Head (stored n) \<and> tail t = Tail (stored n)"
    using recs ks by (auto simp: tp loaded_topic_def)
  have nil: "fst (loadQueue E ?u0) = None"
    by (simp add: loadQueue_eq)
  from ex nil d h show ?thesis by blast
qed

theorem export_load_roundtrip_witness:
  "range_order (topics mem_engine_t) [''t'']
   \<and> genQueueStore [''t''] mem_engine_t = Inr \<lparr>Topics = [''t'']\<rparr>
   \<and> gob_Encode_queue mem_env \<lparr>Topics = [''t'']\<rparr> = Inr [1, 116, 0]
   \<and> gob_Decode_queue mem_env [1, 116, 0] = Inr \<lparr>Topics = [''t'']\<rparr>
   \<and> storage_Get mem_env mem_store_t StorageKeyWord = Inr [1, 116, 0]
   \<and> dom (topics mem_engine_t) = {''t''}
   \<and> topic_record mem_env mem_store_t ''t'' = Some (mem_stored ''t'')
   \<and> fst (exportQueue mem_env [''t''] mem_engine_t) = None
   \<and> fst (loadQueue mem_env \<lparr>topics = Map.empty, storage = mem_store_t\<rparr>) = None
   \<and> dom (topics (snd (loadQueue mem_env \<lparr>topics = Map.empty, storage = mem_store_t\<rparr>)))
       = {''t''}
   \<and> map_option head
         (topics (snd (loadQueue mem_env \<lparr>topics = Map.empty, storage = mem_store_t\<rparr>)) ''t'')
       = Some 0
   \<and> map_option tail
         (topics (snd (loadQueue mem_env \<lparr>topics = Map.empty, storage = mem_store_t\<rparr>)) ''t'')
       = Some 3"
proof -
  have gen: "genQueueStore [''t''] mem_engine_t = Inr \<lparr>Topics = [''t'']\<rparr>"
    by (simp add: genQueueStore_def range_map_def map_filter_def mem_engine_t_def)
  have ne: "[1, 116, 0] \<noteq> ([] :: bytes)"
    by simp
  have held: "storage_Get mem_env mem_store_t StorageKeyWord = Inr [1, 116, 0]"
    by (simp add: mem_env_def mem_Get_def mem_store_t_def mem_with_def)
  have dm: "dom (topics mem_engine_t) = {''t''}"
    by (simp add: mem_engine_t_def)
  have rec: "topic_record mem_env mem_store_t ''t'' = Some (mem_stored ''t'')"
    by (simp add: topic_record_def mem_env_def mem_Get_def mem_store_t_def mem_with_def
          StorageKeyWord_def mem_Decode_topic_def mem_stored_def)
  from dm rec have recs:
    "\<forall>n\<in>dom (topics mem_engine_t). topic_record mem_env mem_store_t n = Some (mem_stored n)"
    by (simp add: mem_stored_def)
  have set_ok: "fst (storage_Set mem_env (storage mem_engine_t) StorageKeyWord [1, 116, 0]) = None"
    by (simp add: mem_env_def mem_Set_def mem_engine_t_def mem_empty_def)
  from export_load_roundtrip [OF mem_order_t gen mem_Encode_t ne mem_Decode_t held recs]
       dm set_ok
  have "fst (exportQueue mem_env [''t''] mem_engine_t) = None
        \<and> fst (loadQueue mem_env \<lparr>topics = Map.empty, storage = mem_store_t\<rparr>) = None
        \<and> dom (topics (snd (loadQueue mem_env \<lparr>topics = Map.empty, storage = mem_store_t\<rparr>)))
            = {''t''}
        \<and> map_option head
              (topics (snd (loadQueue mem_env \<lparr>topics = Map.empty, storage = mem_store_t\<rparr>)) ''t'')
            = Some 0
        \<and> map_option tail
              (topics (snd (loadQueue mem_env \<lparr>topics = Map.empty, storage = mem_store_t\<rparr>)) ''t'')
            = Some 3"
    by (auto simp: mem_stored_def)
  with mem_order_t gen mem_Encode_t mem_Decode_t held dm rec show ?thesis
    by simp
qed

text \<open>
  C3. Recovery tolerates partial failure. When the engine record is readable
  (\<open>engine_record_Some_iff\<close>) and lists the names \<open>Topics v\<close>, \<^verbatim>\<open>loadQueue\<close> returns nil, leaves the storage as
  it was, and decides every name on its own: a listed name with a readable topic
  record is mapped to the topic loaded from that record, whatever happened to the
  other names; a listed name whose record cannot be read (Get error, empty data or
  decode failure, see \<open>topic_record_None_iff\<close>) keeps the entry it had, none in a
  fresh engine. The same holds for the lines of a loaded topic: it has exactly the
  lines of its record that can be loaded (\<open>loaded_line_None_iff\<close>).
\<close>

theorem loadQueue_partial_recovery:
  assumes "engine_record E (storage u) = Some v"
  shows "fst (loadQueue E u) = None
         \<and> storage (snd (loadQueue E u)) = storage u
         \<and> topics (snd (loadQueue E u)) n =
             (if n \<in> set (Topics v)
              then (case topic_record E (storage u) n of
                      None \<Rightarrow> topics u n
                    | Some tv \<Rightarrow> Some (loaded_topic E (storage u) n tv))
              else topics u n)
         \<and> loadTopic E u n tv = Inr (loaded_topic E (storage u) n tv)
         \<and> lines (loaded_topic E (storage u) n tv) l =
             (if l \<in> set (Lines tv)
              then loaded_line E (storage u)
                     \<lparr>name = n, lines = Map.empty, head = Head tv, tail = Tail tv,
                      quit = Open, running = False\<rparr> n l
              else None)"
  using assms
  by (simp add: loadQueue_eq loadQueue_topics_storage loadQueue_topics_apply loadTopic_eq)
     (simp add: loaded_topic_def)


theorem loadQueue_partial_recovery_witness:
  "engine_record mem_env (storage \<lparr>topics = Map.empty, storage = mem_store_abc\<rparr>)
     = Some \<lparr>Topics = [''a'', ''b'', ''c'']\<rparr>
   \<and> fst (loadQueue mem_env \<lparr>topics = Map.empty, storage = mem_store_abc\<rparr>) = None
   \<and> topics (snd (loadQueue mem_env \<lparr>topics = Map.empty, storage = mem_store_abc\<rparr>)) ''a'' = None
   \<and> topics (snd (loadQueue mem_env \<lparr>topics = Map.empty, storage = mem_store_abc\<rparr>)) ''c'' = None
   \<and> topics (snd (loadQueue mem_env \<lparr>topics = Map.empty, storage = mem_store_abc\<rparr>)) ''b''
       = Some (loaded_topic mem_env mem_store_abc ''b''
                 \<lparr>Head = 1, Tail = 5, Lines = [''x'', ''y'']\<rparr>)
   \<and> head (loaded_topic mem_env mem_store_abc ''b''
              \<lparr>Head = 1, Tail = 5, Lines = [''x'', ''y'']\<rparr>) = 1
   \<and> tail (loaded_topic mem_env mem_store_abc ''b''
              \<lparr>Head = 1, Tail = 5, Lines = [''x'', ''y'']\<rparr>) = 5
   \<and> lines (loaded_topic mem_env mem_store_abc ''b''
              \<lparr>Head = 1, Tail = 5, Lines = [''x'', ''y'']\<rparr>) ''x'' = None
   \<and> lines (loaded_topic mem_env mem_store_abc ''b''
              \<lparr>Head = 1, Tail = 5, Lines = [''x'', ''y'']\<rparr>) ''y'' = Some 4"
proof -
  let ?u = "\<lparr>topics = Map.empty, storage = mem_store_abc\<rparr> :: (mem, 64 word) UnitedQueue"
  let ?b = "\<lparr>Head = 1, Tail = 5, Lines = [''x'', ''y'']\<rparr>"
  have er: "engine_record mem_env (storage ?u) = Some \<lparr>Topics = [''a'', ''b'', ''c'']\<rparr>"
    by (simp add: mem_record_abc)
  from loadQueue_partial_recovery [OF er, of "''a''" ?b "''x''"] mem_record_a
  have a: "fst (loadQueue mem_env ?u) = None \<and> topics (snd (loadQueue mem_env ?u)) ''a'' = None"
    by simp
  from loadQueue_partial_recovery [OF er, of "''c''" ?b "''x''"] mem_record_c
  have c: "topics (snd (loadQueue mem_env ?u)) ''c'' = None"
    by simp
  from loadQueue_partial_recovery [OF er, of "''b''" ?b "''x''"] mem_record_b mem_line_x
  have bx: "topics (snd (loadQueue mem_env ?u)) ''b''
              = Some (loaded_topic mem_env mem_store_abc ''b'' ?b)
            \<and> lines (loaded_topic mem_env mem_store_abc ''b'' ?b) ''x'' = None"
    by simp
  from loadQueue_partial_recovery [OF er, of "''b''" ?b "''y''"] mem_line_y
  have "lines (loaded_topic mem_env mem_store_abc ''b'' ?b) ''y'' = Some 4"
    by simp
  with er a c bx show ?thesis
    by (simp add: loaded_topic_def)
qed

text \<open>
  C4, as amended. Pop fails with \<open>ErrKey\<close> at its key check exactly when the path
  does not hold exactly one \<open>/\<close>, that is, does not split into exactly two parts,
  empty or not. A path \<open>a/b\<close> with no \<open>/\<close> in \<open>a\<close> and \<open>b\<close> goes on to the lookup
  of the topic \<open>a\<close>, also when \<open>a\<close> or \<open>b\<close> is empty. When the \<^verbatim>\<open>pop\<close> of a topic
  never returns \<open>ErrKey\<close>, Pop returns \<open>ErrKey\<close> if and only if the path does not
  hold exactly one \<open>/\<close>. \<open>badpath\<close> is rejected with \<open>ErrKey\<close> before any lookup.
\<close>

theorem Pop_key_check:
  "(length (filter ((=) (CHR ''/'')) p) \<noteq> 1 \<longrightarrow> Pop E u p = (Inl ErrKey, u))
   \<and> (CHR ''/'' \<notin> set a \<and> CHR ''/'' \<notin> set b \<longrightarrow>
        Pop E u (a @ ''/'' @ b) =
          (case topics u a of
             None \<Rightarrow> (Inl ErrTopicNotExisted, u)
           | Some t \<Rightarrow>
               (case topic_pop E (storage u) t b of
                  (r, t', st) \<Rightarrow> (r, u\<lparr>topics := (topics u)(a \<mapsto> t'), storage := st\<rparr>))))
   \<and> ((\<forall>st t l. fst (topic_pop E st t l) \<noteq> Inl ErrKey) \<longrightarrow>
        (fst (Pop E u p) = Inl ErrKey \<longleftrightarrow> length (filter ((=) (CHR ''/'')) p) \<noteq> 1))
   \<and> Pop E u ''badpath'' = (Inl ErrKey, u)"
proof -
  have key: "length (Split p (CHR ''/'')) \<noteq> 2 \<longleftrightarrow> length (filter ((=) (CHR ''/'')) p) \<noteq> 1"
    by (simp add: length_Split)
  have one: "length (filter ((=) (CHR ''/'')) p) \<noteq> 1 \<longrightarrow> Pop E u p = (Inl ErrKey, u)"
    using key by (simp add: Pop_def Let_def)
  have two: "CHR ''/'' \<notin> set a \<and> CHR ''/'' \<notin> set b \<longrightarrow>
        Pop E u (a @ ''/'' @ b) =
          (case topics u a of
             None \<Rightarrow> (Inl ErrTopicNotExisted, u)
           | Some t \<Rightarrow>
               (case topic_pop E (storage u) t b of
                  (r, t', st) \<Rightarrow> (r, u\<lparr>topics := (topics u)(a \<mapsto> t'), storage := st\<rparr>)))"
    by (simp add: Pop_def Let_def Split_two)
  have ne: "ErrTopicNotExisted \<noteq> ErrKey"
    by (simp add: ErrTopicNotExisted_def ErrKey_def)
  have three: "(\<forall>st t l. fst (topic_pop E st t l) \<noteq> Inl ErrKey) \<longrightarrow>
        (fst (Pop E u p) = Inl ErrKey \<longleftrightarrow> length (filter ((=) (CHR ''/'')) p) \<noteq> 1)"
  proof (intro impI)
    assume d: "\<forall>st t l. fst (topic_pop E st t l) \<noteq> Inl ErrKey"
    show "fst (Pop E u p) = Inl ErrKey \<longleftrightarrow> length (filter ((=) (CHR ''/'')) p) \<noteq> 1"
    proof (cases "length (Split p (CHR ''/'')) = 2")
      case False
      with key show ?thesis by (simp add: Pop_def Let_def)
    next
      case True
      with key have k1: "length (filter ((=) (CHR ''/'')) p) = 1" by simp
      have "fst (Pop E u p) \<noteq> Inl ErrKey"
      proof (cases "topics u (Split p (CHR ''/'') ! 0)")
        case None
        with True ne show ?thesis by (simp add: Pop_def Let_def)
      next
        case (Some t)
        from d have "fst (topic_pop E (storage u) t (Split p (CHR ''/'') ! 1)) \<noteq> Inl ErrKey"
          by blast
        with True Some show ?thesis by (auto simp: Pop_def Let_def split: prod.splits)
      qed
      with k1 show ?thesis by simp
    qed
  qed
  have four: "Pop E u ''badpath'' = (Inl ErrKey, u)"
    by (simp add: Pop_def Let_def)
  from one two three four show ?thesis by blast
qed


theorem Pop_key_check_witness:
  "length (filter ((=) (CHR ''/'')) ''a/b/c'') \<noteq> 1
   \<and> Pop mem_env mem_engine_t ''a/b/c'' = (Inl ErrKey, mem_engine_t)
   \<and> CHR ''/'' \<notin> set ''t'' \<and> CHR ''/'' \<notin> set ''''
   \<and> fst (Pop mem_env mem_engine_t (''t'' @ ''/'' @ '''')) = Inl ErrLineNotExisted
   \<and> fst (topic_pop mem_env (storage mem_engine_t) (mem_topic ''t'') ''l'') \<noteq> Inl ErrKey
   \<and> length (filter ((=) (CHR ''/'')) ''t/l'') = 1
   \<and> fst (Pop mem_env mem_engine_t ''t/l'') \<noteq> Inl ErrKey
   \<and> Pop mem_env mem_engine_t ''badpath'' = (Inl ErrKey, mem_engine_t)"
proof -
  have c3: "length (filter ((=) (CHR ''/'')) ''a/b/c'') \<noteq> 1"
    by simp
  have c1: "length (filter ((=) (CHR ''/'')) ''t/l'') = 1"
    by simp
  have p: "topic_pop mem_env (storage mem_engine_t) (mem_topic ''t'') '''' =
             (Inl ErrLineNotExisted, mem_topic ''t'', storage mem_engine_t)"
    by (simp add: mem_env_def mem_pop_def mem_topic_def)
  from c3 Pop_key_check [where p = "''a/b/c''" and E = mem_env and u = mem_engine_t]
  have r1: "Pop mem_env mem_engine_t ''a/b/c'' = (Inl ErrKey, mem_engine_t)"
    by blast
  from Pop_key_check [where a = "''t''" and b = "''''" and E = mem_env and u = mem_engine_t]
  have "Pop mem_env mem_engine_t (''t'' @ ''/'' @ '''') =
          (case topics mem_engine_t ''t'' of
             None \<Rightarrow> (Inl ErrTopicNotExisted, mem_engine_t)
           | Some t \<Rightarrow>
               (case topic_pop mem_env (storage mem_engine_t) t '''' of
                  (r, t', st) \<Rightarrow>
                    (r, mem_engine_t\<lparr>topics := (topics mem_engine_t)(''t'' \<mapsto> t'),
                                     storage := st\<rparr>)))"
    by simp
  with p mem_engine_t_topic
  have r2: "fst (Pop mem_env mem_engine_t (''t'' @ ''/'' @ '''')) = Inl ErrLineNotExisted"
    by simp
  from mem_pop_not_ErrKey c1
       Pop_key_check [where p = "''t/l''" and E = mem_env and u = mem_engine_t]
  have r3: "fst (Pop mem_env mem_engine_t ''t/l'') \<noteq> Inl ErrKey"
    by blast
  from Pop_key_check [where E = mem_env and u = mem_engine_t]
  have r4: "Pop mem_env mem_engine_t ''badpath'' = (Inl ErrKey, mem_engine_t)"
    by blast
  from mem_pop_not_ErrKey
  have r5: "fst (topic_pop mem_env (storage mem_engine_t) (mem_topic ''t'') ''l'') \<noteq> Inl ErrKey"
    by blast
  from c3 c1 r1 r2 r3 r4 r5 show ?thesis by simp
qed

text \<open>Against C4 as stated: the paths \<open>t/\<close> and \<open>/l\<close> have an empty part and are
  not rejected with \<open>ErrKey\<close>; the topic is looked up and, when it is there, the
  line.\<close>

theorem Pop_empty_segment_counterexample:
  "Pop mem_env mem_engine ''t/'' = (Inl ErrTopicNotExisted, mem_engine)
   \<and> Pop mem_env mem_engine ''/l'' = (Inl ErrTopicNotExisted, mem_engine)
   \<and> fst (Pop mem_env mem_engine_t ''t/'') = Inl ErrLineNotExisted
   \<and> ErrTopicNotExisted \<noteq> ErrKey \<and> ErrLineNotExisted \<noteq> ErrKey"
  by (simp add: Pop_def Let_def mem_engine_def mem_engine_t_def mem_env_def mem_pop_def
        mem_topic_def ErrTopicNotExisted_def ErrKey_def ErrLineNotExisted_def)


text \<open>
  C6, as amended. When the name is registered, \<^verbatim>\<open>createTopic\<close> fails with
  \<open>ErrTopicExisted\<close> and the engine, topic map and storage, is unchanged; so does
  Create for a name that is not empty. When the name is not registered and the
  encoding and the \<^verbatim>\<open>Set\<close> of the engine record succeed, the new topic is
  registered with head 0 and tail 0, the storage is as \<^verbatim>\<open>Set\<close> left it, and the
  record handed to \<^verbatim>\<open>Set\<close> lists, without repetition, the names registered before
  and the new name.
\<close>

theorem createTopic_exists_or_registers:
  "(topics u nm = Some t0 \<longrightarrow>
      createTopic E ks u nm = (Some ErrTopicExisted, u)
      \<and> (nm \<noteq> [] \<longrightarrow>
           Create E ks u \<lparr>TopicName = nm, LineName = [], Recycle = r\<rparr>
             = (Some ErrTopicExisted, u)))
   \<and> (topics u nm = None \<and> newTopic nm = Inr t
        \<and> genQueueStore ks (u\<lparr>topics := (topics u)(nm \<mapsto> t)\<rparr>) = Inr v
        \<and> gob_Encode_queue E v = Inr buffer
        \<and> storage_Set E (storage u) StorageKeyWord buffer = (None, st) \<longrightarrow>
      createTopic E ks u nm = (None, u\<lparr>topics := (topics u)(nm \<mapsto> t), storage := st\<rparr>)
      \<and> head t = 0 \<and> tail t = 0
      \<and> (nm \<noteq> [] \<longrightarrow>
           Create E ks u \<lparr>TopicName = nm, LineName = [], Recycle = r\<rparr>
             = (None, u\<lparr>topics := (topics u)(nm \<mapsto> t), storage := st\<rparr>))
      \<and> (range_order ((topics u)(nm \<mapsto> t)) ks \<longrightarrow>
           distinct (Topics v) \<and> set (Topics v) = insert nm (dom (topics u))))"
proof -
  have ex: "topics u nm = Some t0 \<longrightarrow>
      createTopic E ks u nm = (Some ErrTopicExisted, u)
      \<and> (nm \<noteq> [] \<longrightarrow>
           Create E ks u \<lparr>TopicName = nm, LineName = [], Recycle = r\<rparr>
             = (Some ErrTopicExisted, u))"
    by (simp add: createTopic_def Create_def)
  have reg: "topics u nm = None \<and> newTopic nm = Inr t
        \<and> genQueueStore ks (u\<lparr>topics := (topics u)(nm \<mapsto> t)\<rparr>) = Inr v
        \<and> gob_Encode_queue E v = Inr buffer
        \<and> storage_Set E (storage u) StorageKeyWord buffer = (None, st) \<longrightarrow>
      createTopic E ks u nm = (None, u\<lparr>topics := (topics u)(nm \<mapsto> t), storage := st\<rparr>)
      \<and> head t = 0 \<and> tail t = 0
      \<and> (nm \<noteq> [] \<longrightarrow>
           Create E ks u \<lparr>TopicName = nm, LineName = [], Recycle = r\<rparr>
             = (None, u\<lparr>topics := (topics u)(nm \<mapsto> t), storage := st\<rparr>))"
    by (auto simp: createTopic_def Create_def exportQueue_def newTopic_def start_def)
  have per: "genQueueStore ks (u\<lparr>topics := (topics u)(nm \<mapsto> t)\<rparr>) = Inr v
        \<and> range_order ((topics u)(nm \<mapsto> t)) ks \<longrightarrow>
           distinct (Topics v) \<and> set (Topics v) = insert nm (dom (topics u))"
  proof (intro impI, elim conjE)
    assume g: "genQueueStore ks (u\<lparr>topics := (topics u)(nm \<mapsto> t)\<rparr>) = Inr v"
      and o: "range_order ((topics u)(nm \<mapsto> t)) ks"
    from g have "Topics v = map fst (range_map ((topics u)(nm \<mapsto> t)) ks)"
      by (auto simp: genQueueStore_def)
    with range_order_keys [OF o] have "Topics v = ks" by simp
    with o show "distinct (Topics v) \<and> set (Topics v) = insert nm (dom (topics u))"
      by (simp add: range_order_def)
  qed
  from ex reg per show ?thesis by blast
qed


theorem createTopic_exists_or_registers_witness:
  "topics mem_engine_t ''t'' = Some (mem_topic ''t'')
   \<and> Create mem_env [''t''] mem_engine_t \<lparr>TopicName = ''t'', LineName = [], Recycle = 0\<rparr>
       = (Some ErrTopicExisted, mem_engine_t)
   \<and> topics mem_engine ''t'' = None
   \<and> newTopic ''t'' = Inr (mem_topic ''t'')
   \<and> genQueueStore [''t''] (mem_engine\<lparr>topics := (topics mem_engine)(''t'' \<mapsto> mem_topic ''t'')\<rparr>)
       = Inr \<lparr>Topics = [''t'']\<rparr>
   \<and> gob_Encode_queue mem_env \<lparr>Topics = [''t'']\<rparr> = Inr [1, 116, 0]
   \<and> storage_Set mem_env (storage mem_engine) StorageKeyWord [1, 116, 0]
       = (None, mem_with [(StorageKeyWord, [1, 116, 0])] [])
   \<and> range_order ((topics mem_engine)(''t'' \<mapsto> mem_topic ''t'')) [''t'']
   \<and> Create mem_env [''t''] mem_engine \<lparr>TopicName = ''t'', LineName = [], Recycle = 0\<rparr>
       = (None, mem_engine\<lparr>topics := (topics mem_engine)(''t'' \<mapsto> mem_topic ''t''),
                            storage := mem_with [(StorageKeyWord, [1, 116, 0])] []\<rparr>)
   \<and> head (mem_topic ''t'') = 0 \<and> tail (mem_topic ''t'') = 0
   \<and> set (Topics \<lparr>Topics = [''t'']\<rparr>) = insert ''t'' (dom (topics mem_engine))"
proof -
  have a: "topics mem_engine ''t'' = None"
    by (simp add: mem_engine_def)
  have gen: "genQueueStore [''t'']
               (mem_engine\<lparr>topics := (topics mem_engine)(''t'' \<mapsto> mem_topic ''t'')\<rparr>)
             = Inr \<lparr>Topics = [''t'']\<rparr>"
    by (simp add: genQueueStore_def range_map_def map_filter_def)
  have st: "storage_Set mem_env (storage mem_engine) StorageKeyWord [1, 116, 0]
              = (None, mem_with [(StorageKeyWord, [1, 116, 0])] [])"
    by (simp add: mem_env_def mem_Set_def mem_engine_def mem_empty_def mem_with_def)
  have ro: "range_order ((topics mem_engine)(''t'' \<mapsto> mem_topic ''t'')) [''t'']"
    by (simp add: range_order_def mem_engine_def)
  from mem_engine_t_topic
       createTopic_exists_or_registers
         [where u = mem_engine_t and nm = "''t''" and ?t0.0 = "mem_topic ''t''" and E = mem_env
            and ks = "[''t'']" and r = 0]
  have r1: "Create mem_env [''t''] mem_engine_t \<lparr>TopicName = ''t'', LineName = [], Recycle = 0\<rparr>
              = (Some ErrTopicExisted, mem_engine_t)"
    by simp
  from a mem_newTopic [of "''t''"] gen mem_Encode_t st ro
       createTopic_exists_or_registers
         [where u = mem_engine and nm = "''t''" and t = "mem_topic ''t''" and E = mem_env
            and ks = "[''t'']" and r = 0 and v = "\<lparr>Topics = [''t'']\<rparr>"
            and buffer = "[1, 116, 0]" and st = "mem_with [(StorageKeyWord, [1, 116, 0])] []"]
  have r2: "Create mem_env [''t''] mem_engine \<lparr>TopicName = ''t'', LineName = [], Recycle = 0\<rparr>
       = (None, mem_engine\<lparr>topics := (topics mem_engine)(''t'' \<mapsto> mem_topic ''t''),
                            storage := mem_with [(StorageKeyWord, [1, 116, 0])] []\<rparr>)
     \<and> head (mem_topic ''t'') = 0 \<and> tail (mem_topic ''t'') = 0
     \<and> set (Topics \<lparr>Topics = [''t'']\<rparr>) = insert ''t'' (dom (topics mem_engine))"
    by simp
  from mem_engine_t_topic r1 a mem_newTopic [of "''t''"] gen mem_Encode_t st ro r2
  show ?thesis by simp
qed

text \<open>Against C6 as stated: with a storage that fails at the engine key the name is
  not registered and stays so; and with a topic registered under the empty name (as
  the recovery can leave one, \<open>mem_loaded_noname\<close>) Create with that name fails with
  \<open>ErrKey\<close>, not \<open>ErrTopicExisted\<close>.\<close>

theorem createTopic_counterexample:
  "topics mem_engine_faulty ''t'' = None
   \<and> Create mem_env [''t''] mem_engine_faulty \<lparr>TopicName = ''t'', LineName = [], Recycle = 0\<rparr>
       = (Some ''storage fault'', mem_engine_faulty)
   \<and> topics mem_engine_noname [] = Some (mem_topic [])
   \<and> Create mem_env [[]] mem_engine_noname \<lparr>TopicName = [], LineName = [], Recycle = 0\<rparr>
       = (Some ErrKey, mem_engine_noname)
   \<and> ErrKey \<noteq> ErrTopicExisted"
  by (simp add: Create_def createTopic_def exportQueue_def genQueueStore_def newTopic_def
        range_map_def map_filter_def mem_engine_faulty_def mem_engine_noname_def mem_env_def
        mem_Encode_queue_def mem_Set_def mem_with_def ErrKey_def ErrTopicExisted_def
        fun_upd_idem)


text \<open>
  C8, as amended. In an engine where no topic has its quit channel closed yet, and
  for any orders \<open>ks1\<close> and \<open>ks2\<close> of the two ranges, Close returns with every
  topic's quit channel closed and with the storage closed after the exports. The
  exports run on the topics with the channel already closed, one topic after the
  other in the order \<open>ks2\<close>, each from the storage the one before left, whether or not
  that one failed; the export of one topic is \<^verbatim>\<open>exportLines\<close> and, when that
  returned nil, \<^verbatim>\<open>exportTopic\<close>. \<^verbatim>\<open>exportTopics\<close> returns nil.
\<close>

theorem Close_signals_exports_closes:
  fixes E :: "('st, 'l, 'ls) env" and u :: "('st, 'l) UnitedQueue"
  assumes o1: "range_order (topics u) ks1"
    and o2: "range_order (topics u) ks2"
    and op: "\<forall>k t. topics u k = Some t \<longrightarrow> quit t = Open"
  shows "Close E ks1 ks2 u =
           Inr \<lparr>topics = (\<lambda>k. map_option (\<lambda>t. t\<lparr>quit := Closed\<rparr>) (topics u k)),
                storage =
                  storage_Close E
                    (foldl (\<lambda>st t. exportTopics_loop E [t] st) (storage u)
                       (map (\<lambda>t. t\<lparr>quit := Closed\<rparr>) (map snd (range_map (topics u) ks2))))\<rparr>
         \<and> map fst (range_map (topics u) ks2) = ks2
         \<and> exportTopics_loop E [t] st =
             (case topic_exportLines E st t of
                (Some err, st1) \<Rightarrow> st1
              | (None, st1) \<Rightarrow> snd (topic_exportTopic E st1 t))
         \<and> fst (exportTopics E ks2 u) = None"
proof -
  from o1 have d1: "distinct ks1" and s1: "set ks1 = dom (topics u)"
    by (simp_all add: range_order_def)
  from op have "\<forall>k\<in>set ks1. \<forall>t. topics u k = Some t \<longrightarrow> quit t = Open"
    by blast
  from Close_quits_open [OF d1 this]
  have "Close_quits ks1 (topics u) =
          Inr (\<lambda>k. if k \<in> set ks1 then map_option (\<lambda>t. t\<lparr>quit := Closed\<rparr>) (topics u k)
                    else topics u k)" .
  moreover have "(\<lambda>k. if k \<in> set ks1 then map_option (\<lambda>t. t\<lparr>quit := Closed\<rparr>) (topics u k)
                    else topics u k)
                 = (\<lambda>k. map_option (\<lambda>t. t\<lparr>quit := Closed\<rparr>) (topics u k))"
    using s1 by (auto simp: fun_eq_iff dom_def)
  ultimately have cq: "Close_quits ks1 (topics u) =
          Inr (\<lambda>k. map_option (\<lambda>t. t\<lparr>quit := Closed\<rparr>) (topics u k))"
    by simp
  have ts: "map snd (range_map (\<lambda>k. map_option (\<lambda>t. t\<lparr>quit := Closed\<rparr>) (topics u k)) ks2)
            = map (\<lambda>t. t\<lparr>quit := Closed\<rparr>) (map snd (range_map (topics u) ks2))"
    by (simp add: range_map_map_option split_def)
  from o2 have k2: "map fst (range_map (topics u) ks2) = ks2"
    by (intro range_map_keys) (auto simp: range_order_def)
  have ex: "exportTopics_loop E
              (map (\<lambda>t. t\<lparr>quit := Closed\<rparr>) (map snd (range_map (topics u) ks2))) (storage u)
            = foldl (\<lambda>st t. exportTopics_loop E [t] st) (storage u)
                (map (\<lambda>t. t\<lparr>quit := Closed\<rparr>) (map snd (range_map (topics u) ks2)))"
    by (rule exportTopics_loop_foldl)
  have cl: "Close E ks1 ks2 u =
           Inr \<lparr>topics = (\<lambda>k. map_option (\<lambda>t. t\<lparr>quit := Closed\<rparr>) (topics u k)),
                storage =
                  storage_Close E
                    (exportTopics_loop E
                       (map (\<lambda>t. t\<lparr>quit := Closed\<rparr>) (map snd (range_map (topics u) ks2)))
                       (storage u))\<rparr>"
    using cq ts by (simp add: Close_def exportTopics_def del: exportTopics_loop.simps)
  have nil: "fst (exportTopics E ks2 u) = None"
    by (simp add: exportTopics_def)
  have single: "exportTopics_loop E [t] st =
             (case topic_exportLines E st t of
                (Some err, st1) \<Rightarrow> st1
              | (None, st1) \<Rightarrow> snd (topic_exportTopic E st1 t))"
    by (simp split: prod.splits option.splits)
  from cl ex k2 nil single show ?thesis by simp
qed

theorem Close_signals_exports_closes_witness:
  "range_order (topics mem_engine_ab) [''b'', ''a'']
   \<and> range_order (topics mem_engine_ab) [''a'', ''b'']
   \<and> map_option quit (topics mem_engine_ab ''a'') = Some Open
   \<and> map_option quit (topics mem_engine_ab ''b'') = Some Open
   \<and> fst (topic_exportTopic mem_env (storage mem_engine_ab) ((mem_topic ''a'')\<lparr>quit := Closed\<rparr>))
       = Some ''storage fault''
   \<and> Close mem_env [''b'', ''a''] [''a'', ''b''] mem_engine_ab =
       Inr \<lparr>topics = (\<lambda>k. map_option (\<lambda>t. t\<lparr>quit := Closed\<rparr>) (topics mem_engine_ab k)),
            storage = \<lparr>cells = [(''b'', [2, 0, 0])], faulty = [''a''], closed = True\<rparr>\<rparr>"
proof -
  have q: "map_option quit (topics mem_engine_ab ''a'') = Some Open
           \<and> map_option quit (topics mem_engine_ab ''b'') = Some Open"
    by (simp add: mem_engine_ab_def mem_topic_def)
  have f: "fst (topic_exportTopic mem_env (storage mem_engine_ab)
                  ((mem_topic ''a'')\<lparr>quit := Closed\<rparr>)) = Some ''storage fault''"
    by (simp add: mem_env_def mem_exportTopic_def mem_Set_def mem_engine_ab_def mem_with_def
          mem_topic_def)
  have ex: "storage_Close mem_env
              (foldl (\<lambda>st t. exportTopics_loop mem_env [t] st) (storage mem_engine_ab)
                 (map (\<lambda>t. t\<lparr>quit := Closed\<rparr>)
                    (map snd (range_map (topics mem_engine_ab) [''a'', ''b'']))))
            = \<lparr>cells = [(''b'', [2, 0, 0])], faulty = [''a''], closed = True\<rparr>"
    by (simp add: range_map_def map_filter_def mem_engine_ab_def mem_env_def mem_exportLines_def
          mem_exportTopic_def mem_Set_def mem_Close_def mem_with_def mem_topic_def)
  from Close_signals_exports_closes
         [OF mem_order_ab(1) mem_order_ab(2) mem_open_ab, where E = mem_env] ex
  have "Close mem_env [''b'', ''a''] [''a'', ''b''] mem_engine_ab =
       Inr \<lparr>topics = (\<lambda>k. map_option (\<lambda>t. t\<lparr>quit := Closed\<rparr>) (topics mem_engine_ab k)),
            storage = \<lparr>cells = [(''b'', [2, 0, 0])], faulty = [''a''], closed = True\<rparr>\<rparr>"
    by simp
  with mem_order_ab q f show ?thesis by simp
qed

text \<open>Against C8 as stated: in the engine a first Close leaves, the quit channel of
  the topic is closed; there a second Close panics at \<^verbatim>\<open>close(t.quit)\<close>, before any
  export and before \<^verbatim>\<open>storage.Close\<close> (\<open>Close_quits_closed\<close> is the general fact).\<close>

theorem Close_twice_counterexample:
  "Close mem_env [''t''] [''t''] mem_engine_t = Inr mem_engine_t_closed
   \<and> Close mem_env [''t''] [''t''] mem_engine_t_closed = Inl CloseOfClosedChannel"
  by (simp add: Close_def exportTopics_def range_map_def map_filter_def mem_engine_t_def
        mem_engine_t_closed_def mem_topic_def mem_env_def mem_exportLines_def
        mem_exportTopic_def mem_Set_def mem_Close_def mem_empty_def)

end
